theory Spec2Isabelle
  imports Main
begin

section \<open>JavaScript values used by lib/Launcher.js\<close>

text \<open>
  An option that may be absent is an \<open>option\<close>: \<open>None\<close> is JavaScript's
  \<open>undefined\<close>. Flags are \<open>bool option\<close>, so that the strict comparisons of the source
  (\<open>=== true\<close>, \<open>!== false\<close>, \<open>typeof x !== 'boolean'\<close>) and its truthiness tests
  (\<open>if (x)\<close>, \<open>!x\<close>, \<open>x || y\<close>) can each be written as the source has them.
  Numbers are integers (milliseconds); an \<open>Error\<close> object is its message.
\<close>

datatype js_error = Error string

definition truthy_bool :: "bool option \<Rightarrow> bool" where
  "truthy_bool v = (v = Some True)"

definition truthy_string :: "string option \<Rightarrow> bool" where
  "truthy_string v = (case v of None \<Rightarrow> False | Some s \<Rightarrow> s \<noteq> [])"

definition truthy_number :: "int \<Rightarrow> bool" where
  "truthy_number n = (n \<noteq> 0)"

text \<open>\<open>String.prototype.startsWith\<close>: \<open>startsWith s p\<close> is \<open>s.startsWith(p)\<close>.\<close>

fun startsWith :: "string \<Rightarrow> string \<Rightarrow> bool" where
  "startsWith s [] = True"
| "startsWith [] (c # p) = False"
| "startsWith (d # s) (c # p) = (d = c \<and> startsWith s p)"

text \<open>
  \<open>a || b\<close> where \<open>a\<close> is an optional string and \<open>b\<close> a string: \<open>a\<close> when it is
  truthy (present and not empty), otherwise \<open>b\<close>.
\<close>

definition or_else :: "string option \<Rightarrow> string \<Rightarrow> string" where
  "or_else a b = (case a of None \<Rightarrow> b | Some s \<Rightarrow> if s \<noteq> [] then s else b)"

text \<open>\<open>Array.prototype.some\<close>.\<close>

fun some :: "('a \<Rightarrow> bool) \<Rightarrow> 'a list \<Rightarrow> bool" where
  "some f [] = False"
| "some f (x # xs) = (f x \<or> some f xs)"

section \<open>Launch options and the module constants\<close>

record LaunchOptions =
  executablePath :: "string option"
  args :: "string list option"
  userDataDir :: "string option"
  headless :: "bool option"
  devtools :: "bool option"
  appMode :: "bool option"
  dumpio :: "bool option"
  handleSIGINT :: "bool option"
  handleSIGTERM :: "bool option"
  handleSIGHUP :: "bool option"
  slowMo :: "int option"
  timeout :: "int option"

definition DEFAULT_ARGS :: "string list" where
  "DEFAULT_ARGS =
    [''--disable-background-networking'',
     ''--disable-background-timer-throttling'',
     ''--disable-client-side-phishing-detection'',
     ''--disable-default-apps'',
     ''--disable-extensions'',
     ''--disable-hang-monitor'',
     ''--disable-popup-blocking'',
     ''--disable-prompt-on-repost'',
     ''--disable-sync'',
     ''--disable-translate'',
     ''--metrics-recording-only'',
     ''--no-first-run'',
     ''--remote-debugging-port=0'',
     ''--safebrowsing-disable-auto-update'']"

definition AUTOMATION_ARGS :: "string list" where
  "AUTOMATION_ARGS =
    [''--enable-automation'',
     ''--password-store=basic'',
     ''--use-mock-keychain'']"

section \<open>External effects\<close>

text \<open>
  Everything \<open>launch\<close> does to the world outside is recorded, in order, as a list of
  effects. What the world answers (whether \<open>fs.mkdtemp\<close>, the kill or a removal
  succeeds) is an input of the model.
\<close>

datatype effect =
    Mkdtemp string
  | RemoveEventListeners
  | ExecSyncTaskkill nat
  | ProcessKill nat
  | RemoveFolderSync "string option"
  | RemoveFolderAsync string
  | ConnectionSend string
  | ConsoleError js_error

text \<open>
  \<open>fs.mkdtemp(prefix)\<close> creates a directory named by the prefix followed by six random
  characters and yields its path, or fails. The random characters, or the failure, are
  the world's answer.
\<close>

datatype mkdtemp_answer = Created string | MkdtempFailed js_error

definition mkdtempAsync :: "string \<Rightarrow> mkdtemp_answer \<Rightarrow> js_error + string" where
  "mkdtempAsync prefix answer =
     (case answer of Created suffix \<Rightarrow> Inr (prefix @ suffix) | MkdtempFailed e \<Rightarrow> Inl e)"

section \<open>launch, lines 63 to 97: composing the arguments of the child\<close>

text \<open>
  \<open>CHROME_PROFILE_PATH\<close> is \<open>path.join(os.tmpdir(), 'puppeteer_dev_profile-')\<close>, fixed
  when the module is loaded; it is a parameter here, as the temporary directory of the
  operating system is.
\<close>

type_synonym composed = "string list \<times> string option"

text \<open>Line 72: no \<open>args\<close>, or none of them starts with \<open>--user-data-dir\<close>.\<close>

definition no_user_data_dir_arg :: "LaunchOptions \<Rightarrow> bool" where
  "no_user_data_dir_arg options =
     (case args options of
        None \<Rightarrow> True
      | Some as \<Rightarrow> \<not> some (\<lambda>arg. startsWith arg ''--user-data-dir'') as)"

text \<open>
  In \<open>options.userDataDir || temporaryUserDataDir\<close> of line 76 the second operand is the
  allocated directory when one was allocated and still \<open>null\<close> otherwise (and then the
  first operand is truthy, so that \<open>null\<close> is never printed).
  The composer returns the effects it had (the call of \<open>mkdtempAsync\<close>, if made) and
  either the error that makes \<open>launch\<close> reject (a failed \<open>mkdtempAsync\<close>, awaited at
  line 74) or the pair of \<open>chromeArguments\<close> and \<open>temporaryUserDataDir\<close>. The
  assignments to \<open>options.headless\<close> of lines 68 and 80 are the successive values
  \<open>headless1\<close> and \<open>headless2\<close>; a value that is not a boolean is \<open>None\<close>. The
  function \<open>rest\<close> is lines 78 to 97, which follow the three ways through lines 72
  to 77.
\<close>

definition compose :: "string \<Rightarrow> LaunchOptions \<Rightarrow> mkdtemp_answer \<Rightarrow> effect list \<times> (js_error + composed)" where
  "compose CHROME_PROFILE_PATH options answer =
    (let chromeArguments1 = DEFAULT_ARGS;
         headless1 = (if truthy_bool (appMode options) then Some False else headless options);
         chromeArguments2 =
           (if truthy_bool (appMode options) then chromeArguments1
            else chromeArguments1 @ AUTOMATION_ARGS);
         rest = (\<lambda>temporary chromeArguments3.
           let chromeArguments4 =
                 (if devtools options = Some True
                  then chromeArguments3 @ [''--auto-open-devtools-for-tabs'']
                  else chromeArguments3);
               headless2 = (if devtools options = Some True then Some False else headless1);
               chromeArguments5 =
                 (if headless2 = None \<or> truthy_bool headless2
                  then chromeArguments4 @
                    [''--headless'', ''--disable-gpu'', ''--hide-scrollbars'', ''--mute-audio'']
                  else chromeArguments4);
               chromeArguments6 =
                 (case args options of
                    Some as \<Rightarrow> chromeArguments5 @ as
                  | None \<Rightarrow> chromeArguments5)
           in (chromeArguments6, temporary))
     in if no_user_data_dir_arg options then
          (if \<not> truthy_string (userDataDir options) then
             (case mkdtempAsync CHROME_PROFILE_PATH answer of
                Inl e \<Rightarrow> ([Mkdtemp CHROME_PROFILE_PATH], Inl e)
              | Inr dir \<Rightarrow>
                  ([Mkdtemp CHROME_PROFILE_PATH],
                   Inr (rest (Some dir)
                     (chromeArguments2 @
                      [''--user-data-dir='' @ or_else (userDataDir options) dir]))))
           else
             ([], Inr (rest None
                  (chromeArguments2 @
                   [''--user-data-dir='' @ or_else (userDataDir options) ''null'']))))
        else ([], Inr (rest None chromeArguments2)))"

section \<open>waitForWSEndpoint, lines 224 to 273: the handshake race\<close>

text \<open>
  The parameter \<open>timeout\<close> of \<open>waitForWSEndpoint\<close> is written \<open>timeout_ms\<close>, the name
  \<open>timeout\<close> being the field of the options.
\<close>

text \<open>
  \<open>Array.prototype.join\<close> and the printing of a number in a template literal. The
  printing is JavaScript's for the integers it represents exactly, those of magnitude
  below \<open>2 ^ 53\<close>.
\<close>

fun join :: "string \<Rightarrow> string list \<Rightarrow> string" where
  "join sep [] = []"
| "join sep [x] = x"
| "join sep (x # y # ys) = x @ sep @ join sep (y # ys)"

fun digits :: "nat \<Rightarrow> string" where
  "digits n =
     (if n < 10 then [''0123456789'' ! n]
      else digits (n div 10) @ [''0123456789'' ! (n mod 10)])"

declare digits.simps [simp del]

definition number_to_string :: "int \<Rightarrow> string" where
  "number_to_string n = (if n < 0 then CHR ''-'' # digits (nat (- n)) else digits (nat n))"

definition safe_integer :: "int \<Rightarrow> bool" where
  "safe_integer n = (\<bar>n\<bar> < 2 ^ 53)"

text \<open>
  \<open>line.match(/^DevTools listening on (ws:\/\/.*)$/)\<close>: the whole line is the literal
  prefix, then \<open>ws://\<close>, then characters none of which is a line terminator (the dot
  matches no line feed and no carriage return; characters are 8-bit here, so the
  separators U+2028 and U+2029 are not in the alphabet). The result is the captured
  group \<open>match[1]\<close>, from \<open>ws://\<close> to the end, or \<open>None\<close> for \<open>null\<close>.
\<close>

definition line_terminator :: "char \<Rightarrow> bool" where
  "line_terminator c = (c = CHR 0x0A \<or> c = CHR 0x0D)"

definition match_endpoint :: "string \<Rightarrow> string option" where
  "match_endpoint line =
     (if startsWith line ''DevTools listening on ws://''
         \<and> \<not> some line_terminator (drop (length ''DevTools listening on ws://'') line)
      then Some (drop (length ''DevTools listening on '') line)
      else None)"

datatype outcome = Resolve string | Reject js_error

text \<open>
  The four listeners of lines 229 to 232, named by emitter and event, and the events
  that can reach the race: a line of the reader, its close, the exit and the error of
  the child, and the timer.
\<close>

datatype race_listener = Rl_line | Rl_close | ChromeProcess_exit | ChromeProcess_error

datatype race_event =
    Line string
  | StderrClose
  | ChildExit
  | ChildError js_error
  | DeadlineElapsed

text \<open>
  The variables of the promise executor: \<open>listeners\<close>, \<open>timeoutId\<close> (whether it is a
  timer handle rather than \<open>0\<close>) and \<open>stderr\<close>; whether the timer is still pending; and
  every call of \<open>resolve\<close> or \<open>reject\<close>, in order. The promise is settled by the first
  such call.
\<close>

record race =
  race_listeners :: "race_listener list"
  timeoutId :: bool
  timer_pending :: bool
  stderr :: string
  settlements :: "outcome list"

text \<open>
  Modelled from the spec: \<open>helper.addEventListener\<close> and \<open>helper.removeEventListeners\<close>
  (lib/helper.js is not among the sources). A subscription is held until released and
  releasing twice is a no-op: removing the listeners detaches every one of them from
  its emitter and empties the list, and an emitter calls a handler only while its
  listener is attached.
\<close>

definition race_removeEventListeners :: "race \<Rightarrow> race" where
  "race_removeEventListeners r = r\<lparr>race_listeners := []\<rparr>"

definition cleanup :: "race \<Rightarrow> race" where
  "cleanup r =
     race_removeEventListeners
       (if timeoutId r then r\<lparr>timer_pending := False\<rparr> else r)"

definition launch_failure_message :: "js_error option \<Rightarrow> string \<Rightarrow> string" where
  "launch_failure_message error buffer =
     join [CHR 0x0A]
       [''Failed to launch chrome!'' @
          (case error of Some (Error message) \<Rightarrow> '' '' @ message | None \<Rightarrow> []),
        buffer,
        [],
        ''TROUBLESHOOTING: https://github.com/GoogleChrome/puppeteer/blob/master/docs/troubleshooting.md'',
        []]"

definition onClose :: "js_error option \<Rightarrow> race \<Rightarrow> race" where
  "onClose error r0 =
     (let r1 = cleanup r0
      in r1\<lparr>settlements := settlements r1 @
             [Reject (Error (launch_failure_message error (stderr r1)))]\<rparr>)"

definition timeout_message :: "int \<Rightarrow> string \<Rightarrow> string" where
  "timeout_message timeout_ms ChromiumRevision =
     ''Timed out after '' @ number_to_string timeout_ms @
     '' ms while trying to connect to Chrome! The only Chrome revision guaranteed to work is r'' @
     ChromiumRevision"

definition onTimeout :: "int \<Rightarrow> string \<Rightarrow> race \<Rightarrow> race" where
  "onTimeout timeout_ms ChromiumRevision r0 =
     (let r1 = cleanup r0
      in r1\<lparr>settlements := settlements r1 @
             [Reject (Error (timeout_message timeout_ms ChromiumRevision))]\<rparr>)"

definition onLine :: "string \<Rightarrow> race \<Rightarrow> race" where
  "onLine line r0 =
     (let r1 = r0\<lparr>stderr := stderr r0 @ line @ [CHR 0x0A]\<rparr>
      in case match_endpoint line of
           None \<Rightarrow> r1
         | Some endpoint \<Rightarrow>
             (let r2 = cleanup r1
              in r2\<lparr>settlements := settlements r2 @ [Resolve endpoint]\<rparr>))"

text \<open>
  The state when the executor returns (lines 226 to 234): the four listeners attached,
  the timer armed when \<open>timeout\<close> is truthy.
\<close>

definition waitForWSEndpoint :: "int \<Rightarrow> race" where
  "waitForWSEndpoint timeout_ms =
     \<lparr>race_listeners = [Rl_line, Rl_close, ChromeProcess_exit, ChromeProcess_error],
      timeoutId = truthy_number timeout_ms,
      timer_pending = truthy_number timeout_ms,
      stderr = [],
      settlements = []\<rparr>"

text \<open>
  One event reaching the race. An emitter calls the handler when its listener is
  attached; the timer calls \<open>onTimeout\<close> when it is pending, and is spent by that.
\<close>

fun deliver :: "int \<Rightarrow> string \<Rightarrow> race \<Rightarrow> race_event \<Rightarrow> race" where
  "deliver timeout_ms ChromiumRevision r (Line line) =
     (if Rl_line \<in> set (race_listeners r) then onLine line r else r)"
| "deliver timeout_ms ChromiumRevision r StderrClose =
     (if Rl_close \<in> set (race_listeners r) then onClose None r else r)"
| "deliver timeout_ms ChromiumRevision r ChildExit =
     (if ChromeProcess_exit \<in> set (race_listeners r) then onClose None r else r)"
| "deliver timeout_ms ChromiumRevision r (ChildError error) =
     (if ChromeProcess_error \<in> set (race_listeners r) then onClose (Some error) r else r)"
| "deliver timeout_ms ChromiumRevision r DeadlineElapsed =
     (if timer_pending r
      then onTimeout timeout_ms ChromiumRevision (r\<lparr>timer_pending := False\<rparr>)
      else r)"

definition handshake :: "int \<Rightarrow> string \<Rightarrow> race_event list \<Rightarrow> race" where
  "handshake timeout_ms ChromiumRevision events =
     foldl (deliver timeout_ms ChromiumRevision) (waitForWSEndpoint timeout_ms) events"

text \<open>The state of the promise: pending, or settled by the first call.\<close>

definition promise :: "race \<Rightarrow> outcome option" where
  "promise r = (case settlements r of [] \<Rightarrow> None | first # later \<Rightarrow> Some first)"

section \<open>launch, lines 112 to 173: supervision of the child\<close>

text \<open>
  The events of \<open>exitEmitter\<close> and the two handlers \<open>launch\<close> subscribes to them.
\<close>

datatype signal = Exit | SIGINT | SIGTERM | SIGHUP

datatype handler = ForceKillChrome | KillChrome

text \<open>Lines 127 to 133: the array \<open>listeners\<close>.\<close>

definition wire_listeners :: "LaunchOptions \<Rightarrow> (signal \<times> handler) list" where
  "wire_listeners options =
     [(Exit, ForceKillChrome)] @
     (if handleSIGINT options \<noteq> Some False then [(SIGINT, ForceKillChrome)] else []) @
     (if handleSIGTERM options \<noteq> Some False then [(SIGTERM, KillChrome)] else []) @
     (if handleSIGHUP options \<noteq> Some False then [(SIGHUP, KillChrome)] else [])"

text \<open>
  What a call into the world answers: it returns, or it throws (for an asynchronous
  call: its promise is fulfilled, or rejected). \<open>process.kill\<close> throws when the target
  does not exist, \<open>execSync\<close> when the command exits with a failure, the removal of a
  folder when the file system refuses it.
\<close>

datatype answer = Returns | Throws js_error

datatype promise_state = Pending | Fulfilled

text \<open>
  The variables that \<open>killChrome\<close>, \<open>forceKillChrome\<close> and the close handler share:
  \<open>temporaryUserDataDir\<close>, \<open>chromeProcess\<close> (its \<open>pid\<close>, absent when the spawn failed, and
  \<open>killed\<close>), \<open>chromeClosed\<close>,
  \<open>listeners\<close>, \<open>connection\<close> (whether it is no longer \<open>null\<close>) and the promise
  \<open>waitForChromeToClose\<close>, whose executor never calls \<open>reject\<close>. Beside them: whether
  the \<open>once('close')\<close> listener is still attached, whether the asynchronous removal
  started by it is still running, and the effects so far.
\<close>

record closure =
  temporaryUserDataDir :: "string option"
  chromeProcess_pid :: "nat option"
  chromeProcess_killed :: bool
  chromeClosed :: bool
  close_listener :: bool
  removal_running :: bool
  listeners :: "(signal \<times> handler) list"
  connection :: bool
  waitForChromeToClose :: promise_state
  effects :: "effect list"

text \<open>
  Modelled from the spec: \<open>helper.removeEventListeners\<close> (lib/helper.js is not among the
  sources) deregisters the subscriptions and is a no-op when they are already
  deregistered: every listener of the array is detached and the array emptied.
\<close>

definition removeEventListeners :: "closure \<Rightarrow> closure" where
  "removeEventListeners c = c\<lparr>listeners := [], effects := effects c @ [RemoveEventListeners]\<rparr>"

text \<open>
  Lines 160 to 173. The kill is not guarded: when it throws, \<open>forceKillChrome\<close> throws
  and the removal below it is not reached. The removal is in a \<open>try\<close> with an empty
  \<open>catch\<close>: whatever it answers, \<open>forceKillChrome\<close> returns. The result is the new
  state and the error thrown, if any.
\<close>

definition removeFolder_sync :: "answer \<Rightarrow> closure \<Rightarrow> closure" where
  "removeFolder_sync remove_answer c =
     (case remove_answer of
        Returns \<Rightarrow> c\<lparr>effects := effects c @ [RemoveFolderSync (temporaryUserDataDir c)]\<rparr>
      | Throws e \<Rightarrow> c\<lparr>effects := effects c @ [RemoveFolderSync (temporaryUserDataDir c)]\<rparr>)"

definition forceKillChrome :: "bool \<Rightarrow> answer \<Rightarrow> answer \<Rightarrow> closure \<Rightarrow> closure \<times> js_error option" where
  "forceKillChrome win32 kill_answer remove_answer c0 =
     (let c1 = removeEventListeners c0
      in case chromeProcess_pid c1 of
           None \<Rightarrow> (removeFolder_sync remove_answer c1, None)
         | Some pid \<Rightarrow>
             (if pid \<noteq> 0 \<and> \<not> chromeProcess_killed c1 \<and> \<not> chromeClosed c1
              then
                (let c2 = c1\<lparr>effects := effects c1 @
                             [if win32 then ExecSyncTaskkill pid else ProcessKill pid]\<rparr>
                 in case kill_answer of
                      Throws e \<Rightarrow> (c2, Some e)
                    | Returns \<Rightarrow> (removeFolder_sync remove_answer c2, None))
              else (removeFolder_sync remove_answer c1, None)))"

text \<open>
  Lines 149 to 158. When nothing is thrown the caller receives the promise
  \<open>waitForChromeToClose\<close>.
\<close>

definition killChrome :: "bool \<Rightarrow> answer \<Rightarrow> answer \<Rightarrow> closure \<Rightarrow> closure \<times> js_error option" where
  "killChrome win32 kill_answer remove_answer c0 =
     (let c1 = removeEventListeners c0
      in if truthy_string (temporaryUserDataDir c1)
         then forceKillChrome win32 kill_answer remove_answer c1
         else if connection c1
         then (c1\<lparr>effects := effects c1 @ [ConnectionSend ''Browser.close'']\<rparr>, None)
         else (c1, None))"

text \<open>
  Lines 113 to 125: the handler of the child's \<open>close\<close> event, subscribed with \<open>once\<close>,
  and the settling of the removal it starts. A rejected removal is logged and
  \<open>fulfill\<close> is not called.
\<close>

definition on_close :: "closure \<Rightarrow> closure" where
  "on_close c0 =
     (if \<not> close_listener c0 then c0
      else
        (let c1 = c0\<lparr>close_listener := False, chromeClosed := True\<rparr>
         in case temporaryUserDataDir c1 of
              Some dir \<Rightarrow>
                (if dir \<noteq> []
                 then c1\<lparr>removal_running := True, effects := effects c1 @ [RemoveFolderAsync dir]\<rparr>
                 else c1\<lparr>waitForChromeToClose := Fulfilled\<rparr>)
            | None \<Rightarrow> c1\<lparr>waitForChromeToClose := Fulfilled\<rparr>))"

definition on_removal_settled :: "answer \<Rightarrow> closure \<Rightarrow> closure" where
  "on_removal_settled remove_answer c0 =
     (if \<not> removal_running c0 then c0
      else
        (let c1 = c0\<lparr>removal_running := False\<rparr>
         in case remove_answer of
              Returns \<Rightarrow> c1\<lparr>waitForChromeToClose := Fulfilled\<rparr>
            | Throws err \<Rightarrow> c1\<lparr>effects := effects c1 @ [ConsoleError err]\<rparr>))"

text \<open>
  The state after \<open>spawn\<close> and the subscriptions of lines 112 to 135.
\<close>

definition spawned :: "LaunchOptions \<Rightarrow> string option \<Rightarrow> nat option \<Rightarrow> closure" where
  "spawned options temporary pid =
     \<lparr>temporaryUserDataDir = temporary,
      chromeProcess_pid = pid,
      chromeProcess_killed = False,
      chromeClosed = False,
      close_listener = True,
      removal_running = False,
      listeners = wire_listeners options,
      connection = False,
      waitForChromeToClose = Pending,
      effects = []\<rparr>"

text \<open>
  What can happen to a supervised child, each with the answers of the world it meets:
  a call of \<open>forceKillChrome\<close> or of \<open>killChrome\<close> (the close hook handed to the
  browser), an event of \<open>exitEmitter\<close> (which calls the handlers subscribed to it, in
  order), the child's \<open>close\<close> event, the settling of the asynchronous removal.
\<close>

datatype trigger =
    CallForceKillChrome answer answer
  | CallKillChrome answer answer
  | Emit signal answer answer
  | ChildClose
  | RemovalSettled answer

definition run_handler :: "bool \<Rightarrow> answer \<Rightarrow> answer \<Rightarrow> handler \<Rightarrow> closure \<Rightarrow> closure \<times> js_error option" where
  "run_handler win32 kill_answer remove_answer h c =
     (case h of
        ForceKillChrome \<Rightarrow> forceKillChrome win32 kill_answer remove_answer c
      | KillChrome \<Rightarrow> killChrome win32 kill_answer remove_answer c)"

text \<open>
  \<open>emit\<close> calls the handlers that were subscribed when it started; the first that throws
  ends it.
\<close>

fun emit :: "bool \<Rightarrow> answer \<Rightarrow> answer \<Rightarrow> handler list \<Rightarrow> closure \<Rightarrow> closure \<times> js_error option" where
  "emit win32 kill_answer remove_answer [] c = (c, None)"
| "emit win32 kill_answer remove_answer (h # hs) c =
     (case run_handler win32 kill_answer remove_answer h c of
        (c', Some e) \<Rightarrow> (c', Some e)
      | (c', None) \<Rightarrow> emit win32 kill_answer remove_answer hs c')"

definition step :: "bool \<Rightarrow> closure \<Rightarrow> trigger \<Rightarrow> closure \<times> js_error option" where
  "step win32 c t =
     (case t of
        CallForceKillChrome kill_answer remove_answer \<Rightarrow>
          forceKillChrome win32 kill_answer remove_answer c
      | CallKillChrome kill_answer remove_answer \<Rightarrow>
          killChrome win32 kill_answer remove_answer c
      | Emit s kill_answer remove_answer \<Rightarrow>
          emit win32 kill_answer remove_answer
            (map snd (filter (\<lambda>l. fst l = s) (listeners c))) c
      | ChildClose \<Rightarrow> (on_close c, None)
      | RemovalSettled remove_answer \<Rightarrow> (on_removal_settled remove_answer c, None))"

text \<open>A run: the state after the triggers, and the errors thrown on the way.\<close>

fun run :: "bool \<Rightarrow> closure \<Rightarrow> trigger list \<Rightarrow> closure \<times> js_error list" where
  "run win32 c [] = (c, [])"
| "run win32 c (t # ts) =
     (case step win32 c t of
        (c', thrown) \<Rightarrow>
          (case run win32 c' ts of
             (c'', errs) \<Rightarrow> (c'', (case thrown of None \<Rightarrow> [] | Some e \<Rightarrow> [e]) @ errs)))"

text \<open>
  Lines 136 to 144: the \<open>try\<close> and its \<open>catch\<close>. The handshake has settled with an
  outcome; \<open>Connection.create\<close> and \<open>Browser.create\<close> are collaborators whose results
  are given: for \<open>Connection.create\<close>, awaited, the connection or the error it rejects
  with; for \<open>Browser.create\<close>, returned without \<open>await\<close>, what it returns or the error
  it throws while called. The result of \<open>launch\<close> is what it returns or the error it
  rejects with.
\<close>

datatype 'b launch_outcome = Returned 'b | Rejected js_error

definition launch_catch :: "bool \<Rightarrow> answer \<Rightarrow> answer \<Rightarrow> js_error \<Rightarrow> closure \<Rightarrow> closure \<times> 'b launch_outcome" where
  "launch_catch win32 kill_answer remove_answer e c =
     (case forceKillChrome win32 kill_answer remove_answer c of
        (c', Some thrown) \<Rightarrow> (c', Rejected thrown)
      | (c', None) \<Rightarrow> (c', Rejected e))"

definition launch_try ::
  "bool \<Rightarrow> answer \<Rightarrow> answer \<Rightarrow> outcome \<Rightarrow> (string \<Rightarrow> js_error + unit) \<Rightarrow> js_error + 'b \<Rightarrow>
   closure \<Rightarrow> closure \<times> 'b launch_outcome" where
  "launch_try win32 kill_answer remove_answer browserWSEndpoint Connection_create Browser_create c0 =
     (case browserWSEndpoint of
        Reject e \<Rightarrow> launch_catch win32 kill_answer remove_answer e c0
      | Resolve endpoint \<Rightarrow>
          (case Connection_create endpoint of
             Inl e \<Rightarrow> launch_catch win32 kill_answer remove_answer e c0
           | Inr u \<Rightarrow>
               (let c1 = c0\<lparr>connection := True\<rparr>
                in case Browser_create of
                     Inl e \<Rightarrow> launch_catch win32 kill_answer remove_answer e c1
                   | Inr browser \<Rightarrow> (c1, Returned browser))))"

text \<open>Line 138: the timeout handed to \<open>waitForWSEndpoint\<close> is \<open>options.timeout || 30 * 1000\<close>.\<close>

definition handshake_timeout :: "LaunchOptions \<Rightarrow> int" where
  "handshake_timeout options =
     (case timeout options of
        None \<Rightarrow> 30 * 1000
      | Some t \<Rightarrow> if truthy_number t then t else 30 * 1000)"

section \<open>Vocabulary of the properties\<close>

text \<open>Options that set nothing, from which the examples are made.\<close>

definition options_plain :: LaunchOptions where
  "options_plain =
     \<lparr>executablePath = None, args = None, userDataDir = None, headless = None,
      devtools = None, appMode = None, dumpio = None, handleSIGINT = None,
      handleSIGTERM = None, handleSIGHUP = None, slowMo = None, timeout = None\<rparr>"

text \<open>
  The arguments that precede the \<open>--user-data-dir\<close> argument: the default ones and, with
  app mode off, the automation ones.
\<close>

definition front :: "LaunchOptions \<Rightarrow> string list" where
  "front options =
     DEFAULT_ARGS @ (if truthy_bool (appMode options) then [] else AUTOMATION_ARGS)"

text \<open>
  An event settles a race that is still running when it is a line that matches, the
  close of the reader, the exit or an error of the child, or the timer of a race that
  has one. What the race answers to it depends on the lines read before, which make
  the diagnostic buffer.
\<close>

definition settles_race :: "int \<Rightarrow> race_event \<Rightarrow> bool" where
  "settles_race timeout_ms ev =
     (case ev of
        Line line \<Rightarrow> match_endpoint line \<noteq> None
      | DeadlineElapsed \<Rightarrow> timeout_ms \<noteq> 0
      | _ \<Rightarrow> True)"

fun buffer_of :: "race_event list \<Rightarrow> string" where
  "buffer_of [] = []"
| "buffer_of (Line line # evs) = line @ [CHR 0x0A] @ buffer_of evs"
| "buffer_of (ev # evs) = buffer_of evs"

definition outcome_of :: "int \<Rightarrow> string \<Rightarrow> string \<Rightarrow> race_event \<Rightarrow> outcome" where
  "outcome_of timeout_ms ChromiumRevision buffer ev =
     (case ev of
        Line line \<Rightarrow> Resolve (drop (length ''DevTools listening on '') line)
      | StderrClose \<Rightarrow> Reject (Error (launch_failure_message None buffer))
      | ChildExit \<Rightarrow> Reject (Error (launch_failure_message None buffer))
      | ChildError error \<Rightarrow> Reject (Error (launch_failure_message (Some error) buffer))
      | DeadlineElapsed \<Rightarrow> Reject (Error (timeout_message timeout_ms ChromiumRevision)))"

text \<open>A race that has not settled yet, with the buffer read so far.\<close>

definition racing :: "int \<Rightarrow> string \<Rightarrow> race" where
  "racing timeout_ms buffer = (waitForWSEndpoint timeout_ms)\<lparr>stderr := buffer\<rparr>"

text \<open>
  Among the effects, the removals of a folder; and the part of the state that only the
  close handler and the settling of its removal change.
\<close>

fun is_sync_removal :: "effect \<Rightarrow> bool" where
  "is_sync_removal (RemoveFolderSync d) = True"
| "is_sync_removal e = False"

fun is_async_removal :: "effect \<Rightarrow> bool" where
  "is_async_removal (RemoveFolderAsync d) = True"
| "is_async_removal e = False"

definition control :: "closure \<Rightarrow> promise_state \<times> bool \<times> bool \<times> string option" where
  "control c =
     (waitForChromeToClose c, close_listener c, removal_running c, temporaryUserDataDir c)"

text \<open>
  The removals among the effects of a state, and what holds of them in every state a
  child that owns the directory \<open>dir\<close> can reach: they all remove \<open>dir\<close>, and the
  asynchronous one is there at most once, never while the close listener is still
  attached.
\<close>

definition removals :: "closure \<Rightarrow> effect list" where
  "removals c = filter (\<lambda>e. is_sync_removal e \<or> is_async_removal e) (effects c)"

definition removal_invariant :: "string \<Rightarrow> closure \<Rightarrow> bool" where
  "removal_invariant dir c =
     (temporaryUserDataDir c = Some dir \<and>
      set (removals c) \<subseteq> {RemoveFolderSync (Some dir), RemoveFolderAsync dir} \<and>
      length (filter is_async_removal (removals c)) + (if close_listener c then 1 else 0) \<le> 1)"

text \<open>A trigger whose kill, if it comes to one, returns.\<close>

fun kill_returns :: "trigger \<Rightarrow> bool" where
  "kill_returns (CallForceKillChrome k r) = (k = Returns)"
| "kill_returns (CallKillChrome k r) = (k = Returns)"
| "kill_returns (Emit s k r) = (k = Returns)"
| "kill_returns t = True"

text \<open>A direct call of either kill whose operating-system kill, if it comes to one, returns.\<close>

fun forced_kill_call :: "trigger \<Rightarrow> bool" where
  "forced_kill_call (CallForceKillChrome k r) = (k = Returns)"
| "forced_kill_call (CallKillChrome k r) = (k = Returns)"
| "forced_kill_call t = False"

section \<open>The arguments of the child\<close>

lemmas compose_simps =
  compose_def Let_def options_plain_def truthy_bool_def truthy_string_def
  no_user_data_dir_arg_def mkdtempAsync_def DEFAULT_ARGS_def AUTOMATION_ARGS_def or_else_def

lemma compose_allocating:
  assumes "no_user_data_dir_arg options" and "\<not> truthy_string (userDataDir options)"
  shows "fst (compose P options answer) = [Mkdtemp P]"
    and "\<exists>after. snd (compose P options (Created suffix)) =
           Inr (front options @ [''--user-data-dir='' @ P @ suffix] @ after, Some (P @ suffix))"
  using assms
  by (auto simp: compose_def Let_def mkdtempAsync_def or_else_def truthy_string_def front_def
        split: option.splits mkdtemp_answer.splits)

lemma compose_userDataDir:
  assumes "no_user_data_dir_arg options" and "userDataDir options = Some dir" and "dir \<noteq> []"
  shows "fst (compose P options answer) = []"
    and "\<exists>after. snd (compose P options answer) =
           Inr (front options @ [''--user-data-dir='' @ dir] @ after, None)"
  using assms
  by (auto simp: compose_def Let_def or_else_def truthy_string_def front_def
        split: option.splits)

lemma compose_argument_given:
  assumes "\<not> no_user_data_dir_arg options"
  shows "fst (compose P options answer) = []"
    and "\<exists>after. snd (compose P options answer) = Inr (front options @ after, None)"
  using assms
  by (auto simp: compose_def Let_def front_def split: option.splits)

lemma compose_lists_differ:
  assumes "no_user_data_dir_arg options" and "\<not> truthy_string (userDataDir options)"
  shows "(fst (projr (snd (compose P options (Created suffix1)))) =
          fst (projr (snd (compose P options (Created suffix2))))) = (suffix1 = suffix2)"
  using assms
  by (auto simp: compose_def Let_def mkdtempAsync_def or_else_def truthy_string_def
        split: if_splits option.splits)

lemma compose_not_allocating:
  assumes "\<not> no_user_data_dir_arg options \<or> truthy_string (userDataDir options)"
  shows "compose P options answer1 = compose P options answer2"
    and "\<exists>arguments. snd (compose P options answer1) = Inr (arguments, None)"
  using assms
  by (auto simp: compose_def Let_def mkdtempAsync_def or_else_def truthy_string_def
        split: if_splits option.splits)

subsection \<open>C4: the automation flags\<close>

text \<open>
  C4 as stated fails. With app mode off and \<open>devtools\<close> set to \<open>true\<close> the claim has the
  automation flags left out; the composer appends them all the same, since line 70
  depends on \<open>appMode\<close> alone and \<open>devtools\<close> is not read before line 78.
\<close>

theorem automation_args_with_devtools:
  "\<not> truthy_bool (appMode (options_plain\<lparr>devtools := Some True\<rparr>)) \<and>
   devtools (options_plain\<lparr>devtools := Some True\<rparr>) = Some True \<and>
   snd (compose ''/tmp/puppeteer_dev_profile-'' (options_plain\<lparr>devtools := Some True\<rparr>)
          (Created ''AAAAAA'')) =
     Inr ([''--disable-background-networking'',
           ''--disable-background-timer-throttling'',
           ''--disable-client-side-phishing-detection'',
           ''--disable-default-apps'',
           ''--disable-extensions'',
           ''--disable-hang-monitor'',
           ''--disable-popup-blocking'',
           ''--disable-prompt-on-repost'',
           ''--disable-sync'',
           ''--disable-translate'',
           ''--metrics-recording-only'',
           ''--no-first-run'',
           ''--remote-debugging-port=0'',
           ''--safebrowsing-disable-auto-update'',
           ''--enable-automation'',
           ''--password-store=basic'',
           ''--use-mock-keychain'',
           ''--user-data-dir=/tmp/puppeteer_dev_profile-AAAAAA'',
           ''--auto-open-devtools-for-tabs''],
          Some ''/tmp/puppeteer_dev_profile-AAAAAA'')"
  by (simp add: compose_simps)

text \<open>
  C4, amended: for every LaunchOptions with app mode off, whatever \<open>devtools\<close> is, every
  composed argument list begins with the default arguments followed by the three
  automation flags \<open>--enable-automation\<close>, \<open>--password-store=basic\<close> and
  \<open>--use-mock-keychain\<close>, which are therefore among its elements.
\<close>

theorem automation_args_appended:
  assumes "\<not> truthy_bool (appMode options)"
    and "snd (compose CHROME_PROFILE_PATH options answer) = Inr composed"
  shows "take (length DEFAULT_ARGS + length AUTOMATION_ARGS) (fst composed) =
           DEFAULT_ARGS @ AUTOMATION_ARGS \<and>
         set AUTOMATION_ARGS \<subseteq> set (fst composed)"
proof -
  have beginning:
    "take (length DEFAULT_ARGS + length AUTOMATION_ARGS) (fst composed) =
       DEFAULT_ARGS @ AUTOMATION_ARGS"
    using assms
    by (auto simp: compose_def Let_def mkdtempAsync_def
          split: if_splits sum.splits mkdtemp_answer.splits option.splits)
  have "set (take (length DEFAULT_ARGS + length AUTOMATION_ARGS) (fst composed))
          \<subseteq> set (fst composed)"
    by (rule set_take_subset)
  with beginning show ?thesis by simp
qed

text \<open>The amended C4 at options with app mode off and \<open>devtools\<close> set to \<open>true\<close>.\<close>

theorem automation_args_appended_witness:
  "\<not> truthy_bool (appMode (options_plain\<lparr>devtools := Some True\<rparr>)) \<and>
   devtools (options_plain\<lparr>devtools := Some True\<rparr>) = Some True \<and>
   set AUTOMATION_ARGS \<subseteq>
     set (fst (projr (snd (compose ''/tmp/puppeteer_dev_profile-''
        (options_plain\<lparr>devtools := Some True\<rparr>) (Created ''AAAAAA'')))))"
  using automation_args_appended [of "options_plain\<lparr>devtools := Some True\<rparr>"
      "''/tmp/puppeteer_dev_profile-''" "Created ''AAAAAA''"
      "projr (snd (compose ''/tmp/puppeteer_dev_profile-''
        (options_plain\<lparr>devtools := Some True\<rparr>) (Created ''AAAAAA'')))"]
  by (simp add: compose_simps)

subsection \<open>C5: two runs on the same options\<close>

text \<open>
  C5 as stated fails. On options that supply neither a \<open>--user-data-dir\<close> argument nor
  \<open>userDataDir\<close>, each run asks \<open>fs.mkdtemp\<close> for a fresh directory and names it in the
  arguments: two runs that were given the directories ending in \<open>AAAAAA\<close> and in
  \<open>BBBBBB\<close> produce different argument lists.
\<close>

theorem compose_two_runs_differ:
  "snd (compose ''/tmp/puppeteer_dev_profile-'' options_plain (Created ''AAAAAA'')) =
     Inr (DEFAULT_ARGS @ AUTOMATION_ARGS @
          [''--user-data-dir=/tmp/puppeteer_dev_profile-AAAAAA'',
           ''--headless'', ''--disable-gpu'', ''--hide-scrollbars'', ''--mute-audio''],
          Some ''/tmp/puppeteer_dev_profile-AAAAAA'') \<and>
   snd (compose ''/tmp/puppeteer_dev_profile-'' options_plain (Created ''BBBBBB'')) =
     Inr (DEFAULT_ARGS @ AUTOMATION_ARGS @
          [''--user-data-dir=/tmp/puppeteer_dev_profile-BBBBBB'',
           ''--headless'', ''--disable-gpu'', ''--hide-scrollbars'', ''--mute-audio''],
          Some ''/tmp/puppeteer_dev_profile-BBBBBB'') \<and>
   fst (projr (snd (compose ''/tmp/puppeteer_dev_profile-'' options_plain (Created ''AAAAAA''))))
     \<noteq> fst (projr (snd (compose ''/tmp/puppeteer_dev_profile-'' options_plain (Created ''BBBBBB''))))"
  by (simp add: compose_simps)

text \<open>
  C5, amended: for every pair of runs of the composer on identical LaunchOptions that
  supply a \<open>--user-data-dir\<close> argument or a non-empty \<open>userDataDir\<close>, the two runs
  produce the same argument list (and allocate nothing) whatever \<open>fs.mkdtemp\<close> would
  answer; on options that supply neither, each run names in its argument list the
  directory that was allocated for it, and the argument lists of two runs are equal
  exactly when they were given the same directory.
\<close>

theorem compose_deterministic_up_to_mkdtemp:
  "(\<not> no_user_data_dir_arg options \<or> truthy_string (userDataDir options) \<longrightarrow>
      compose CHROME_PROFILE_PATH options answer1 = compose CHROME_PROFILE_PATH options answer2 \<and>
      (\<exists>arguments.
         snd (compose CHROME_PROFILE_PATH options answer1) = Inr (arguments, None) \<and>
         snd (compose CHROME_PROFILE_PATH options answer2) = Inr (arguments, None))) \<and>
   (no_user_data_dir_arg options \<and> \<not> truthy_string (userDataDir options) \<longrightarrow>
      (\<exists>after.
         snd (compose CHROME_PROFILE_PATH options (Created suffix1)) =
           Inr (front options @ [''--user-data-dir='' @ CHROME_PROFILE_PATH @ suffix1] @ after,
                Some (CHROME_PROFILE_PATH @ suffix1))) \<and>
      (fst (projr (snd (compose CHROME_PROFILE_PATH options (Created suffix1)))) =
       fst (projr (snd (compose CHROME_PROFILE_PATH options (Created suffix2))))) =
        (suffix1 = suffix2))"
proof (intro conjI impI)
  assume given: "\<not> no_user_data_dir_arg options \<or> truthy_string (userDataDir options)"
  then show same: "compose CHROME_PROFILE_PATH options answer1 =
      compose CHROME_PROFILE_PATH options answer2"
    by (rule compose_not_allocating(1))
  from given obtain arguments
    where "snd (compose CHROME_PROFILE_PATH options answer1) = Inr (arguments, None)"
    using compose_not_allocating(2) by blast
  with same show "\<exists>arguments.
         snd (compose CHROME_PROFILE_PATH options answer1) = Inr (arguments, None) \<and>
         snd (compose CHROME_PROFILE_PATH options answer2) = Inr (arguments, None)"
    by simp
next
  assume neither: "no_user_data_dir_arg options \<and> \<not> truthy_string (userDataDir options)"
  then show "\<exists>after.
         snd (compose CHROME_PROFILE_PATH options (Created suffix1)) =
           Inr (front options @ [''--user-data-dir='' @ CHROME_PROFILE_PATH @ suffix1] @ after,
                Some (CHROME_PROFILE_PATH @ suffix1))"
    using compose_allocating(2) [of options CHROME_PROFILE_PATH suffix1] by blast
  from neither show "(fst (projr (snd (compose CHROME_PROFILE_PATH options (Created suffix1)))) =
       fst (projr (snd (compose CHROME_PROFILE_PATH options (Created suffix2))))) =
        (suffix1 = suffix2)"
    by (simp add: compose_lists_differ)
qed

text \<open>
  The amended C5 at options with a \<open>userDataDir\<close> (two different answers, one result)
  and at options without (the same directory, equal argument lists; different
  directories, different argument lists).
\<close>

theorem compose_deterministic_up_to_mkdtemp_witness:
  "truthy_string (userDataDir (options_plain\<lparr>userDataDir := Some ''/p''\<rparr>)) \<and>
   compose ''/tmp/puppeteer_dev_profile-'' (options_plain\<lparr>userDataDir := Some ''/p''\<rparr>)
     (Created ''AAAAAA'') =
   compose ''/tmp/puppeteer_dev_profile-'' (options_plain\<lparr>userDataDir := Some ''/p''\<rparr>)
     (Created ''BBBBBB'') \<and>
   no_user_data_dir_arg options_plain \<and> \<not> truthy_string (userDataDir options_plain) \<and>
   fst (projr (snd (compose ''/tmp/puppeteer_dev_profile-'' options_plain (Created ''AAAAAA'')))) =
   fst (projr (snd (compose ''/tmp/puppeteer_dev_profile-'' options_plain (Created ''AAAAAA'')))) \<and>
   fst (projr (snd (compose ''/tmp/puppeteer_dev_profile-'' options_plain (Created ''AAAAAA''))))
     \<noteq>
   fst (projr (snd (compose ''/tmp/puppeteer_dev_profile-'' options_plain (Created ''CCCCCC''))))"
  using compose_deterministic_up_to_mkdtemp [of "options_plain\<lparr>userDataDir := Some ''/p''\<rparr>"
      "''/tmp/puppeteer_dev_profile-''" "Created ''AAAAAA''" "Created ''BBBBBB''"]
    compose_deterministic_up_to_mkdtemp [of options_plain
      "''/tmp/puppeteer_dev_profile-''" "Created ''AAAAAA''" "Created ''BBBBBB''"
      "''AAAAAA''" "''CCCCCC''"]
  by (simp add: options_plain_def truthy_string_def no_user_data_dir_arg_def)

subsection \<open>C9: the temporary profile directory\<close>

text \<open>
  C9 as stated fails. Line 73 tests \<open>!options.userDataDir\<close>, and the empty string is
  falsy: options that do supply \<open>userDataDir\<close>, as the empty string, and no
  \<open>--user-data-dir\<close> argument make \<open>launch\<close> allocate a temporary directory, and the
  argument appended points at the allocated directory, not at \<open>userDataDir\<close>.
\<close>

theorem empty_userDataDir_allocates:
  "no_user_data_dir_arg (options_plain\<lparr>userDataDir := Some ''''\<rparr>) \<and>
   userDataDir (options_plain\<lparr>userDataDir := Some ''''\<rparr>) \<noteq> None \<and>
   compose ''/tmp/puppeteer_dev_profile-'' (options_plain\<lparr>userDataDir := Some ''''\<rparr>)
       (Created ''AAAAAA'') =
     ([Mkdtemp ''/tmp/puppeteer_dev_profile-''],
      Inr (DEFAULT_ARGS @ AUTOMATION_ARGS @
          [''--user-data-dir=/tmp/puppeteer_dev_profile-AAAAAA'',
           ''--headless'', ''--disable-gpu'', ''--hide-scrollbars'', ''--mute-audio''],
          Some ''/tmp/puppeteer_dev_profile-AAAAAA''))"
  by (simp add: compose_simps)

text \<open>
  C9, amended: for every LaunchOptions, \<open>launch\<close> asks for a temporary profile directory
  if and only if no element of \<open>options.args\<close> starts with \<open>--user-data-dir\<close> and
  \<open>options.userDataDir\<close> is absent or empty; when the directory is then created, an
  argument \<open>--user-data-dir=\<close> pointing at it is appended after the default (and
  automation) arguments and it becomes \<open>temporaryUserDataDir\<close>; when a non-empty
  \<open>userDataDir\<close> is supplied without such an argument, an argument \<open>--user-data-dir=\<close>
  pointing at \<open>userDataDir\<close> is appended at the same place and nothing is allocated.
\<close>

theorem temporary_profile_allocation:
  "(Mkdtemp CHROME_PROFILE_PATH \<in> set (fst (compose CHROME_PROFILE_PATH options answer)) \<longleftrightarrow>
      no_user_data_dir_arg options \<and> \<not> truthy_string (userDataDir options)) \<and>
   (no_user_data_dir_arg options \<and> \<not> truthy_string (userDataDir options) \<longrightarrow>
      fst (compose CHROME_PROFILE_PATH options (Created suffix)) = [Mkdtemp CHROME_PROFILE_PATH] \<and>
      (\<exists>after.
         snd (compose CHROME_PROFILE_PATH options (Created suffix)) =
           Inr (front options @ [''--user-data-dir='' @ CHROME_PROFILE_PATH @ suffix] @ after,
                Some (CHROME_PROFILE_PATH @ suffix)))) \<and>
   (no_user_data_dir_arg options \<and> userDataDir options = Some dir \<and> dir \<noteq> [] \<longrightarrow>
      fst (compose CHROME_PROFILE_PATH options answer) = [] \<and>
      (\<exists>after.
         snd (compose CHROME_PROFILE_PATH options answer) =
           Inr (front options @ [''--user-data-dir='' @ dir] @ after, None)))"
proof -
  have allocates:
    "Mkdtemp CHROME_PROFILE_PATH \<in> set (fst (compose CHROME_PROFILE_PATH options answer)) \<longleftrightarrow>
      no_user_data_dir_arg options \<and> \<not> truthy_string (userDataDir options)"
  proof (cases "no_user_data_dir_arg options")
    case True
    show ?thesis
    proof (cases "truthy_string (userDataDir options)")
      case True
      then obtain d where "userDataDir options = Some d" "d \<noteq> []"
        by (auto simp: truthy_string_def split: option.splits)
      with \<open>no_user_data_dir_arg options\<close> True show ?thesis
        by (simp add: compose_userDataDir(1))
    next
      case False
      with True show ?thesis by (simp add: compose_allocating(1))
    qed
  next
    case False
    then show ?thesis by (simp add: compose_argument_given(1))
  qed
  show ?thesis
    using allocates
      compose_allocating(1) [of options CHROME_PROFILE_PATH "Created suffix"]
      compose_allocating(2) [of options CHROME_PROFILE_PATH suffix]
      compose_userDataDir(1) [of options dir CHROME_PROFILE_PATH answer]
      compose_userDataDir(2) [of options dir CHROME_PROFILE_PATH answer]
    by blast
qed

text \<open>
  The amended C9 at options that set nothing (a directory is asked for) and at options
  with a \<open>userDataDir\<close> (none is).
\<close>

theorem temporary_profile_allocation_witness:
  "no_user_data_dir_arg options_plain \<and> \<not> truthy_string (userDataDir options_plain) \<and>
   Mkdtemp ''/tmp/puppeteer_dev_profile-'' \<in>
     set (fst (compose ''/tmp/puppeteer_dev_profile-'' options_plain (Created ''AAAAAA''))) \<and>
   no_user_data_dir_arg (options_plain\<lparr>userDataDir := Some ''/p''\<rparr>) \<and>
   fst (compose ''/tmp/puppeteer_dev_profile-'' (options_plain\<lparr>userDataDir := Some ''/p''\<rparr>)
     (Created ''AAAAAA'')) = []"
  using temporary_profile_allocation [of "''/tmp/puppeteer_dev_profile-''" options_plain
      "Created ''AAAAAA''" "''AAAAAA''" "''/p''"]
    temporary_profile_allocation [of "''/tmp/puppeteer_dev_profile-''"
      "options_plain\<lparr>userDataDir := Some ''/p''\<rparr>" "Created ''AAAAAA''" "''AAAAAA''" "''/p''"]
  by (simp add: options_plain_def truthy_string_def no_user_data_dir_arg_def)

section \<open>The handshake race\<close>

lemma buffer_of_append: "buffer_of (xs @ ys) = buffer_of xs @ buffer_of ys"
  by (induction xs rule: buffer_of.induct) auto

text \<open>A race whose listeners are detached and whose timer is not pending ignores every event.\<close>

lemma deliver_detached:
  "race_listeners r = [] \<Longrightarrow> \<not> timer_pending r \<Longrightarrow> deliver t rv r ev = r"
  by (cases ev) auto

lemma foldl_deliver_detached:
  "race_listeners r = [] \<Longrightarrow> \<not> timer_pending r \<Longrightarrow> foldl (deliver t rv) r evs = r"
  by (induction evs) (auto simp: deliver_detached)

text \<open>An event that does not settle leaves the race running; a line is added to the buffer.\<close>

lemma deliver_idle:
  "\<not> settles_race t ev \<Longrightarrow> deliver t rv (racing t buf) ev = racing t (buf @ buffer_of [ev])"
  by (cases ev)
     (auto simp: settles_race_def racing_def waitForWSEndpoint_def onLine_def truthy_number_def)

lemma foldl_deliver_idle:
  "\<forall>ev \<in> set evs. \<not> settles_race t ev \<Longrightarrow>
   foldl (deliver t rv) (racing t buf) evs = racing t (buf @ buffer_of evs)"
proof (induction evs arbitrary: buf)
  case Nil
  then show ?case by simp
next
  case (Cons ev evs)
  have "buffer_of (ev # evs) = buffer_of [ev] @ buffer_of evs"
    using buffer_of_append [of "[ev]" evs] by simp
  with Cons show ?case by (simp add: deliver_idle)
qed

text \<open>An event that settles detaches everything and makes the one call of resolve or reject.\<close>

lemma deliver_settles:
  assumes "settles_race t ev"
  shows "deliver t rv (racing t buf) ev =
           \<lparr>race_listeners = [], timeoutId = truthy_number t, timer_pending = False,
            stderr = buf @ buffer_of [ev], settlements = [outcome_of t rv buf ev]\<rparr>"
  using assms
  by (cases ev)
     (auto simp: settles_race_def racing_def waitForWSEndpoint_def onLine_def onClose_def
        onTimeout_def cleanup_def race_removeEventListeners_def truthy_number_def
        outcome_of_def match_endpoint_def Let_def split: if_splits)

lemma handshake_idle:
  "\<forall>ev \<in> set evs. \<not> settles_race t ev \<Longrightarrow> handshake t rv evs = racing t (buffer_of evs)"
  using foldl_deliver_idle [of evs t rv "[]"]
  by (simp add: handshake_def racing_def waitForWSEndpoint_def)

lemma handshake_settled:
  assumes "\<forall>e \<in> set pre. \<not> settles_race t e" and "settles_race t ev"
  shows "handshake t rv (pre @ ev # post) =
           \<lparr>race_listeners = [], timeoutId = truthy_number t, timer_pending = False,
            stderr = buffer_of pre @ buffer_of [ev],
            settlements = [outcome_of t rv (buffer_of pre) ev]\<rparr>"
proof -
  have "handshake t rv (pre @ ev # post) =
          foldl (deliver t rv) (deliver t rv (handshake t rv pre) ev) post"
    by (simp add: handshake_def)
  also have "handshake t rv pre = racing t (buffer_of pre)"
    using assms(1) by (rule handshake_idle)
  finally show ?thesis
    using assms(2) by (simp add: deliver_settles foldl_deliver_detached)
qed

lemmas race_eval =
  settles_race_def match_endpoint_def line_terminator_def outcome_of_def
  launch_failure_message_def timeout_message_def number_to_string_def

subsection \<open>C1: the race settles once\<close>

text \<open>
  C1: for every sequence of events delivered to the race started by
  \<open>waitForWSEndpoint\<close>, in any order, the promise is settled exactly once when an event
  that settles is among them, and stays pending otherwise. The first event that
  settles (a matching line, the close of stderr, the exit or an error of the child, the
  deadline of a race that has one) determines the result, from the lines read before
  it; with that settlement the timer is no longer pending and all the listeners are
  detached; and whatever events follow, from any source, \<open>resolve\<close> and \<open>reject\<close> have
  been called that one time only.
\<close>

theorem handshake_settles_once:
  "((\<forall>ev \<in> set events. \<not> settles_race timeout_ms ev) \<longrightarrow>
      settlements (handshake timeout_ms ChromiumRevision events) = []) \<and>
   ((\<forall>e \<in> set pre. \<not> settles_race timeout_ms e) \<and> settles_race timeout_ms ev \<longrightarrow>
      settlements (handshake timeout_ms ChromiumRevision (pre @ ev # post)) =
        [outcome_of timeout_ms ChromiumRevision (buffer_of pre) ev] \<and>
      \<not> timer_pending (handshake timeout_ms ChromiumRevision (pre @ ev # post)) \<and>
      race_listeners (handshake timeout_ms ChromiumRevision (pre @ ev # post)) = [])"
proof (intro conjI impI)
  assume "\<forall>ev \<in> set events. \<not> settles_race timeout_ms ev"
  then have "handshake timeout_ms ChromiumRevision events = racing timeout_ms (buffer_of events)"
    by (rule handshake_idle)
  then show "settlements (handshake timeout_ms ChromiumRevision events) = []"
    by (simp add: racing_def waitForWSEndpoint_def)
next
  assume "(\<forall>e \<in> set pre. \<not> settles_race timeout_ms e) \<and> settles_race timeout_ms ev"
  then have settled:
    "handshake timeout_ms ChromiumRevision (pre @ ev # post) =
       \<lparr>race_listeners = [], timeoutId = truthy_number timeout_ms, timer_pending = False,
        stderr = buffer_of pre @ buffer_of [ev],
        settlements = [outcome_of timeout_ms ChromiumRevision (buffer_of pre) ev]\<rparr>"
    by (simp add: handshake_settled)
  show "settlements (handshake timeout_ms ChromiumRevision (pre @ ev # post)) =
          [outcome_of timeout_ms ChromiumRevision (buffer_of pre) ev]"
    by (simp add: settled)
  show "\<not> timer_pending (handshake timeout_ms ChromiumRevision (pre @ ev # post))"
    by (simp add: settled)
  show "race_listeners (handshake timeout_ms ChromiumRevision (pre @ ev # post)) = []"
    by (simp add: settled)
qed

text \<open>
  C1 on the orders the specification names: a matching line, then an exit, the
  deadline and a late matching line; an exit, then a late matching line, the deadline
  and the close of stderr; and a race without a timer that only reads a line.
\<close>

theorem handshake_settles_once_witness:
  "settlements (handshake 100 ''499413''
     ([Line ''x''] @ Line ''DevTools listening on ws://127.0.0.1:9222/devtools/browser/abc'' #
      [ChildExit, DeadlineElapsed, Line ''DevTools listening on ws://late''])) =
     [Resolve ''ws://127.0.0.1:9222/devtools/browser/abc''] \<and>
   settlements (handshake 100 ''499413''
     ([] @ ChildExit #
      [Line ''DevTools listening on ws://late'', DeadlineElapsed, StderrClose])) =
     [Reject (Error (launch_failure_message None []))] \<and>
   settlements (handshake 0 ''499413'' [Line ''x'', DeadlineElapsed]) = []"
  using handshake_settles_once [of "[Line ''x'', DeadlineElapsed]" 0 "''499413''" "[Line ''x'']"
      "Line ''DevTools listening on ws://127.0.0.1:9222/devtools/browser/abc''"
      "[ChildExit, DeadlineElapsed, Line ''DevTools listening on ws://late'']"]
    handshake_settles_once [of "[Line ''x'', DeadlineElapsed]" 100 "''499413''" "[Line ''x'']"
      "Line ''DevTools listening on ws://127.0.0.1:9222/devtools/browser/abc''"
      "[ChildExit, DeadlineElapsed, Line ''DevTools listening on ws://late'']"]
    handshake_settles_once [of "[]" 100 "''499413''" "[]" ChildExit
      "[Line ''DevTools listening on ws://late'', DeadlineElapsed, StderrClose]"]
  by (simp add: race_eval)

subsection \<open>C7: the deadline\<close>

text \<open>
  Through \<open>launch\<close> the timer is always armed: line 138 replaces an absent or zero
  \<open>options.timeout\<close> by thirty seconds.
\<close>

lemma launch_arms_timer: "timer_pending (waitForWSEndpoint (handshake_timeout options))"
  by (simp add: handshake_timeout_def waitForWSEndpoint_def truthy_number_def
        split: option.splits)

text \<open>
  C7 as stated fails. Line 234 arms the timer when \<open>timeout\<close> is truthy, and a negative
  number is: with a timeout of \<open>-1\<close>, which is not greater than zero, the timer is armed,
  and when it elapses the promise is rejected.
\<close>

theorem timer_armed_for_negative_timeout:
  "\<not> (0 < (-1 :: int)) \<and>
   timer_pending (waitForWSEndpoint (-1)) \<and>
   promise (handshake (-1) ''499413'' [DeadlineElapsed]) =
     Some (Reject (Error
       ''Timed out after -1 ms while trying to connect to Chrome! The only Chrome revision guaranteed to work is r499413''))"
  by (simp add: waitForWSEndpoint_def truthy_number_def handshake_def onTimeout_def cleanup_def
        race_removeEventListeners_def promise_def timeout_message_def number_to_string_def
        digits.simps)

text \<open>
  C7, amended: the deadline timer is armed exactly when the timeout handed to
  \<open>waitForWSEndpoint\<close> is not zero (a negative one arms it too); and if it elapses
  before any other source has settled the race, the promise is rejected with an error
  whose message is \<open>Timed out after\<close>, the timeout, \<open>ms while trying to connect to
  Chrome! The only Chrome revision guaranteed to work is r\<close> and the expected revision
  (a timeout of 100 gives a message naming 100).
\<close>

theorem deadline_rejects_with_timeout:
  "(timer_pending (waitForWSEndpoint timeout_ms) \<longleftrightarrow> timeout_ms \<noteq> 0) \<and>
   (timeout_ms \<noteq> 0 \<and> safe_integer timeout_ms \<and>
    (\<forall>ev \<in> set pre. \<not> settles_race timeout_ms ev) \<longrightarrow>
      promise (handshake timeout_ms ChromiumRevision (pre @ DeadlineElapsed # post)) =
        Some (Reject (Error
          (''Timed out after '' @ number_to_string timeout_ms @
           '' ms while trying to connect to Chrome! The only Chrome revision guaranteed to work is r'' @
           ChromiumRevision))))"
proof (intro conjI impI)
  show "timer_pending (waitForWSEndpoint timeout_ms) \<longleftrightarrow> timeout_ms \<noteq> 0"
    by (simp add: waitForWSEndpoint_def truthy_number_def)
next
  assume a: "timeout_ms \<noteq> 0 \<and> safe_integer timeout_ms \<and>
    (\<forall>ev \<in> set pre. \<not> settles_race timeout_ms ev)"
  then have "settles_race timeout_ms DeadlineElapsed" by (simp add: settles_race_def)
  with a show "promise (handshake timeout_ms ChromiumRevision (pre @ DeadlineElapsed # post)) =
        Some (Reject (Error
          (''Timed out after '' @ number_to_string timeout_ms @
           '' ms while trying to connect to Chrome! The only Chrome revision guaranteed to work is r'' @
           ChromiumRevision)))"
    by (simp add: handshake_settled promise_def outcome_of_def timeout_message_def)
qed

text \<open>
  The amended C7 on the scenario of the specification: the timeout is 100, a line that
  does not match is read, the deadline elapses, the child exits afterwards.
\<close>

theorem deadline_rejects_with_timeout_witness:
  "timer_pending (waitForWSEndpoint 100) \<and>
   promise (handshake 100 ''499413'' ([Line ''starting''] @ DeadlineElapsed # [ChildExit])) =
     Some (Reject (Error
       ''Timed out after 100 ms while trying to connect to Chrome! The only Chrome revision guaranteed to work is r499413''))"
  using deadline_rejects_with_timeout [of 100 "[Line ''starting'']" "''499413''" "[ChildExit]"]
  by (simp add: race_eval safe_integer_def digits.simps)

subsection \<open>C8: the child is lost before the handshake\<close>

text \<open>
  C8: if the child's stderr stream closes, or the child exits or errors, before a line
  matching the discovery pattern is seen and before the deadline elapses,
  \<open>waitForWSEndpoint\<close> rejects with an error whose message is \<open>Failed to launch
  chrome!\<close>, followed by the message of the underlying error when there is one, then
  the accumulated stderr buffer (every line read so far, each ended by a line feed),
  then the troubleshooting guidance.
\<close>

theorem close_rejects_with_diagnostics:
  assumes "\<forall>e \<in> set pre. \<not> settles_race timeout_ms e"
  shows
   "promise (handshake timeout_ms ChromiumRevision (pre @ StderrClose # post)) =
      Some (Reject (Error
        (''Failed to launch chrome!'' @ [CHR 0x0A] @ buffer_of pre @ [CHR 0x0A] @ [CHR 0x0A] @
         ''TROUBLESHOOTING: https://github.com/GoogleChrome/puppeteer/blob/master/docs/troubleshooting.md'' @
         [CHR 0x0A]))) \<and>
    promise (handshake timeout_ms ChromiumRevision (pre @ ChildExit # post)) =
      Some (Reject (Error
        (''Failed to launch chrome!'' @ [CHR 0x0A] @ buffer_of pre @ [CHR 0x0A] @ [CHR 0x0A] @
         ''TROUBLESHOOTING: https://github.com/GoogleChrome/puppeteer/blob/master/docs/troubleshooting.md'' @
         [CHR 0x0A]))) \<and>
    promise (handshake timeout_ms ChromiumRevision (pre @ ChildError (Error message) # post)) =
      Some (Reject (Error
        (''Failed to launch chrome! '' @ message @ [CHR 0x0A] @ buffer_of pre @ [CHR 0x0A] @
         [CHR 0x0A] @
         ''TROUBLESHOOTING: https://github.com/GoogleChrome/puppeteer/blob/master/docs/troubleshooting.md'' @
         [CHR 0x0A])))"
  using assms
  by (simp add: handshake_settled settles_race_def promise_def outcome_of_def
        launch_failure_message_def)

text \<open>
  C8 on the scenario of the specification: the child writes two lines, none matching,
  and exits before the deadline.
\<close>

theorem close_rejects_with_diagnostics_witness:
  "promise (handshake 30000 ''499413''
      ([Line ''error while loading shared libraries'', Line ''libX11.so.6''] @
       ChildExit # [StderrClose])) =
     Some (Reject (Error
       ''Failed to launch chrome!\<newline>error while loading shared libraries\<newline>libX11.so.6\<newline>\<newline>\<newline>TROUBLESHOOTING: https://github.com/GoogleChrome/puppeteer/blob/master/docs/troubleshooting.md\<newline>''))"
  using close_rejects_with_diagnostics
    [of "[Line ''error while loading shared libraries'', Line ''libX11.so.6'']"
      30000 "''499413''" "[StderrClose]"]
  by (simp add: race_eval)

section \<open>Supervision of the child\<close>

subsection \<open>What the two kills leave alone\<close>

text \<open>
  Neither kill touches the promise, the close listener, the running removal or the
  name of the temporary directory: only the close handler and the settling of its
  removal do.
\<close>

lemma removeFolder_sync_eq:
  "removeFolder_sync a c = c\<lparr>effects := effects c @ [RemoveFolderSync (temporaryUserDataDir c)]\<rparr>"
  by (cases a) (simp_all add: removeFolder_sync_def)

lemma forceKillChrome_control: "control (fst (forceKillChrome w k r c)) = control c"
  by (simp add: forceKillChrome_def removeEventListeners_def removeFolder_sync_eq control_def
        Let_def split: option.splits answer.splits)

lemma removeEventListeners_control: "control (removeEventListeners c) = control c"
  by (simp add: removeEventListeners_def control_def)

lemma killChrome_control: "control (fst (killChrome w k r c)) = control c"
proof -
  have "control (removeEventListeners c) = control c"
    by (rule removeEventListeners_control)
  then show ?thesis
    using forceKillChrome_control [of w k r "removeEventListeners c"]
    by (simp add: killChrome_def Let_def control_def)
qed

lemma run_handler_control: "control (fst (run_handler w k r h c)) = control c"
  by (cases h) (simp_all add: run_handler_def forceKillChrome_control killChrome_control)

lemma emit_control: "control (fst (emit w k r hs c)) = control c"
proof (induction hs arbitrary: c)
  case Nil
  then show ?case by simp
next
  case (Cons h hs)
  obtain c' x where hc: "run_handler w k r h c = (c', x)" by (cases "run_handler w k r h c")
  then have "control c' = control c" using run_handler_control [of w k r h c] by simp
  with Cons hc show ?case by (cases x) simp_all
qed

lemma step_control:
  "t \<noteq> ChildClose \<Longrightarrow> (\<forall>a. t \<noteq> RemovalSettled a) \<Longrightarrow> control (fst (step w c t)) = control c"
  by (cases t) (simp_all add: step_def forceKillChrome_control killChrome_control emit_control)

lemma fst_run_Cons: "fst (run w c (t # ts)) = fst (run w (fst (step w c t)) ts)"
  by (simp split: prod.splits)

lemma fst_run_append: "fst (run w c (xs @ ys)) = fst (run w (fst (run w c xs)) ys)"
proof (induction xs arbitrary: c)
  case Nil
  then show ?case by simp
next
  case (Cons t xs)
  show ?case using Cons [of "fst (step w c t)"] by (simp only: append_Cons fst_run_Cons)
qed

subsection \<open>Which removals each operation makes\<close>

lemma forceKillChrome_removals:
  "removals (fst (forceKillChrome w k r c)) =
     removals c @ (if snd (forceKillChrome w k r c) = None
                   then [RemoveFolderSync (temporaryUserDataDir c)] else [])"
  by (simp add: forceKillChrome_def removeEventListeners_def removeFolder_sync_eq removals_def
        Let_def split: option.splits answer.splits)

lemma forceKillChrome_returns: "snd (forceKillChrome w Returns r c) = None"
  by (simp add: forceKillChrome_def Let_def split: option.splits)

lemma killChrome_removals:
  "removals (fst (killChrome w k r c)) =
     removals c @ (if truthy_string (temporaryUserDataDir c) \<and> snd (killChrome w k r c) = None
                   then [RemoveFolderSync (temporaryUserDataDir c)] else [])"
  using forceKillChrome_removals [of w k r "removeEventListeners c"]
  by (simp add: killChrome_def Let_def)
     (simp add: removals_def removeEventListeners_def)

lemma killChrome_returns: "snd (killChrome w Returns r c) = None"
  by (simp add: killChrome_def Let_def forceKillChrome_returns)

lemma on_close_removals:
  "removals (on_close c) =
     removals c @ (case temporaryUserDataDir c of
                     Some dir \<Rightarrow> if close_listener c \<and> dir \<noteq> [] then [RemoveFolderAsync dir] else []
                   | None \<Rightarrow> [])"
  by (simp add: on_close_def removals_def Let_def split: option.splits)

lemma on_removal_settled_removals: "removals (on_removal_settled a c) = removals c"
  by (simp add: on_removal_settled_def removals_def Let_def split: answer.splits)

lemma forceKillChrome_invariant:
  assumes "removal_invariant dir c"
  shows "removal_invariant dir (fst (forceKillChrome w k r c))"
  using assms forceKillChrome_control [of w k r c]
  by (auto simp: removal_invariant_def forceKillChrome_removals control_def)

lemma killChrome_invariant:
  assumes "removal_invariant dir c"
  shows "removal_invariant dir (fst (killChrome w k r c))"
  using assms killChrome_control [of w k r c]
  by (auto simp: removal_invariant_def killChrome_removals control_def)

lemma emit_invariant:
  "removal_invariant dir c \<Longrightarrow> removal_invariant dir (fst (emit w k r hs c))"
proof (induction hs arbitrary: c)
  case Nil
  then show ?case by simp
next
  case (Cons h hs)
  obtain c' x where hc: "run_handler w k r h c = (c', x)" by (cases "run_handler w k r h c")
  have "removal_invariant dir (fst (run_handler w k r h c))"
    using Cons.prems
    by (cases h) (simp_all add: run_handler_def forceKillChrome_invariant killChrome_invariant)
  with hc have "removal_invariant dir c'" by simp
  with Cons.IH hc show ?case by (cases x) simp_all
qed

lemma on_close_invariant:
  "removal_invariant dir c \<Longrightarrow> removal_invariant dir (on_close c)"
  by (auto simp: removal_invariant_def on_close_removals)
     (auto simp: on_close_def Let_def split: if_splits)

lemma on_removal_settled_invariant:
  "removal_invariant dir c \<Longrightarrow> removal_invariant dir (on_removal_settled a c)"
  by (auto simp: removal_invariant_def on_removal_settled_removals)
     (auto simp: on_removal_settled_def Let_def split: if_splits answer.splits)

lemma step_invariant:
  "removal_invariant dir c \<Longrightarrow> removal_invariant dir (fst (step w c t))"
  by (cases t)
     (simp_all add: step_def forceKillChrome_invariant killChrome_invariant emit_invariant
        on_close_invariant on_removal_settled_invariant)

lemma run_invariant:
  "removal_invariant dir c \<Longrightarrow> removal_invariant dir (fst (run w c ts))"
proof (induction ts arbitrary: c)
  case Nil
  then show ?case by simp
next
  case (Cons t ts)
  then show ?case by (simp only: fst_run_Cons step_invariant)
qed

lemma spawned_invariant:
  "removal_invariant dir ((spawned options (Some dir) pid)\<lparr>connection := connected\<rparr>)"
  by (simp add: removal_invariant_def spawned_def removals_def)


subsection \<open>C2: how often the directory is removed\<close>

lemma async_removals: "filter is_async_removal (removals c) = filter is_async_removal (effects c)"
  unfolding removals_def filter_filter by (rule filter_cong) auto

lemma sync_removals: "filter is_sync_removal (removals c) = filter is_sync_removal (effects c)"
  unfolding removals_def filter_filter by (rule filter_cong) auto

lemma forced_kills_remove_each_time:
  "length (filter is_sync_removal
     (effects (fst (run w c (replicate n (CallForceKillChrome Returns r)))))) =
   length (filter is_sync_removal (effects c)) + n"
proof (induction n arbitrary: c)
  case 0
  then show ?case by simp
next
  case (Suc n)
  have "length (filter is_sync_removal (effects (fst (forceKillChrome w Returns r c)))) =
        length (filter is_sync_removal (effects c)) + 1"
    using forceKillChrome_removals [of w Returns r c]
    by (simp add: forceKillChrome_returns sync_removals [symmetric])
  with Suc [of "fst (forceKillChrome w Returns r c)"] show ?case
    by (simp only: replicate_Suc fst_run_Cons) (simp add: step_def)
qed

lemma emit_returns: "snd (emit w Returns r hs c) = None"
proof (induction hs arbitrary: c)
  case Nil
  then show ?case by simp
next
  case (Cons h hs)
  obtain c' x where hc: "run_handler w Returns r h c = (c', x)"
    by (cases "run_handler w Returns r h c")
  have "snd (run_handler w Returns r h c) = None"
    by (cases h) (simp_all add: run_handler_def forceKillChrome_returns killChrome_returns)
  with hc have "x = None" by simp
  with Cons hc show ?case by simp
qed

lemma step_kill_returns: "kill_returns t \<Longrightarrow> snd (step w c t) = None"
  by (cases t)
     (simp_all add: step_def forceKillChrome_returns killChrome_returns emit_returns)

lemma run_kill_returns: "\<forall>t \<in> set ts. kill_returns t \<Longrightarrow> snd (run w c ts) = []"
proof (induction ts arbitrary: c)
  case Nil
  then show ?case by simp
next
  case (Cons t ts)
  then have "snd (step w c t) = None" by (simp add: step_kill_returns)
  moreover have "snd (run w (fst (step w c t)) ts) = []" using Cons by simp
  ultimately show ?case by (auto split: prod.splits)
qed

lemma forceKillChrome_sync:
  "filter is_sync_removal (effects (fst (forceKillChrome w Returns r c))) =
     filter is_sync_removal (effects c) @ [RemoveFolderSync (temporaryUserDataDir c)]"
  using forceKillChrome_removals [of w Returns r c]
  by (simp add: forceKillChrome_returns sync_removals [symmetric])

lemma killChrome_sync:
  assumes "truthy_string (temporaryUserDataDir c)"
  shows "filter is_sync_removal (effects (fst (killChrome w Returns r c))) =
     filter is_sync_removal (effects c) @ [RemoveFolderSync (temporaryUserDataDir c)]"
  using killChrome_removals [of w Returns r c] assms
  by (simp add: killChrome_returns sync_removals [symmetric])

lemma forced_kill_calls_remove_each_time:
  assumes "truthy_string (temporaryUserDataDir c)" and "\<forall>t \<in> set ks. forced_kill_call t"
  shows "length (filter is_sync_removal (effects (fst (run w c ks)))) =
         length (filter is_sync_removal (effects c)) + length ks"
  using assms
proof (induction ks arbitrary: c)
  case Nil
  then show ?case by simp
next
  case (Cons t ks)
  have kept: "control (fst (step w c t)) = control c"
    using Cons.prems(2) by (intro step_control) (cases t; simp)+
  then have owns: "truthy_string (temporaryUserDataDir (fst (step w c t)))"
    using Cons.prems(1) by (simp add: control_def)
  have one: "length (filter is_sync_removal (effects (fst (step w c t)))) =
             length (filter is_sync_removal (effects c)) + 1"
    using Cons.prems
    by (cases t) (simp_all add: step_def forceKillChrome_sync killChrome_sync)
  have "length (filter is_sync_removal (effects (fst (run w (fst (step w c t)) ks)))) =
        length (filter is_sync_removal (effects (fst (step w c t)))) + length ks"
    using owns Cons.prems(2) by (intro Cons.IH) simp_all
  with one show ?case by (simp only: fst_run_Cons) simp
qed

text \<open>
  C2 as stated fails. \<open>forceKillChrome\<close> calls \<open>removeFolder.sync\<close> each time it runs,
  with no memory of an earlier run, and the close handler calls \<open>removeFolderAsync\<close>
  whatever ran before: a forced kill invoked twice on a child that owns a temporary
  directory executes the removal twice, and a graceful close followed by the child's
  close event executes it twice as well, once synchronously and once asynchronously.
\<close>

theorem forced_kill_twice_removes_twice:
  "effects (fst (run False
      (spawned options_plain (Some ''/tmp/puppeteer_dev_profile-AAAAAA'') (Some 4242))
      [CallForceKillChrome Returns Returns, CallForceKillChrome Returns Returns])) =
     [RemoveEventListeners, ProcessKill 4242,
      RemoveFolderSync (Some ''/tmp/puppeteer_dev_profile-AAAAAA''),
      RemoveEventListeners, ProcessKill 4242,
      RemoveFolderSync (Some ''/tmp/puppeteer_dev_profile-AAAAAA'')] \<and>
   effects (fst (run False
      (spawned options_plain (Some ''/tmp/puppeteer_dev_profile-AAAAAA'') (Some 4242))
      [CallKillChrome Returns Returns, ChildClose])) =
     [RemoveEventListeners, RemoveEventListeners, ProcessKill 4242,
      RemoveFolderSync (Some ''/tmp/puppeteer_dev_profile-AAAAAA''),
      RemoveFolderAsync ''/tmp/puppeteer_dev_profile-AAAAAA'']"
  by (simp add: step_def spawned_def forceKillChrome_def killChrome_def removeEventListeners_def
        removeFolder_sync_def on_close_def truthy_string_def Let_def)

text \<open>
  C2, amended: for every SupervisedProcess that owns a temporary profile directory,
  the asynchronous removal started by the child's close event executes at most once
  per process, and every removal that executes is of that directory; but each forced
  kill whose operating-system kill returns, in any state, executes a synchronous
  removal of its own and surfaces no error whatever the removal answers, and so does
  each graceful close of a child that owns a temporary directory, which escalates to
  the forced kill: forced kill invoked \<open>n\<close> times executes \<open>n\<close> removals, and any
  sequence of direct calls of the two kills executes as many removals as it has
  calls. No trigger surfaces an error unless its operating-system kill throws: a
  removal that fails is swallowed (forced kill) or logged (close).
\<close>

theorem removal_attempts:
  "length (filter is_async_removal
     (effects (fst (run win32
        ((spawned options (Some dir) pid)\<lparr>connection := connected\<rparr>) ts)))) \<le> 1 \<and>
   (\<forall>e \<in> set (effects (fst (run win32
        ((spawned options (Some dir) pid)\<lparr>connection := connected\<rparr>) ts))).
      (is_sync_removal e \<longrightarrow> e = RemoveFolderSync (Some dir)) \<and>
      (is_async_removal e \<longrightarrow> e = RemoveFolderAsync dir)) \<and>
   length (filter is_sync_removal
     (effects (fst (run win32 ((spawned options (Some dir) pid)\<lparr>connection := connected\<rparr>)
        (replicate n (CallForceKillChrome Returns remove_answer)))))) = n \<and>
   ((\<forall>t \<in> set ts. kill_returns t) \<longrightarrow>
      snd (run win32 ((spawned options (Some dir) pid)\<lparr>connection := connected\<rparr>) ts) = []) \<and>
   snd (forceKillChrome win32 Returns remove_answer c) = None \<and>
   filter is_sync_removal (effects (fst (forceKillChrome win32 Returns remove_answer c))) =
     filter is_sync_removal (effects c) @ [RemoveFolderSync (temporaryUserDataDir c)] \<and>
   (truthy_string (temporaryUserDataDir c) \<longrightarrow>
      snd (killChrome win32 Returns remove_answer c) = None \<and>
      filter is_sync_removal (effects (fst (killChrome win32 Returns remove_answer c))) =
        filter is_sync_removal (effects c) @ [RemoveFolderSync (temporaryUserDataDir c)]) \<and>
   (dir \<noteq> [] \<and> (\<forall>t \<in> set kills. forced_kill_call t) \<longrightarrow>
      length (filter is_sync_removal
        (effects (fst (run win32
          ((spawned options (Some dir) pid)\<lparr>connection := connected\<rparr>) kills)))) =
      length kills)"
proof -
  let ?start = "(spawned options (Some dir) pid)\<lparr>connection := connected\<rparr>"
  let ?c = "fst (run win32 ?start ts)"
  have inv: "removal_invariant dir ?c"
    by (rule run_invariant) (rule spawned_invariant)
  then have once: "length (filter is_async_removal (effects ?c)) \<le> 1"
    by (simp add: removal_invariant_def async_removals split: if_splits)
  have target: "\<forall>e \<in> set (effects ?c).
      (is_sync_removal e \<longrightarrow> e = RemoveFolderSync (Some dir)) \<and>
      (is_async_removal e \<longrightarrow> e = RemoveFolderAsync dir)"
  proof
    fix e assume e: "e \<in> set (effects ?c)"
    show "(is_sync_removal e \<longrightarrow> e = RemoveFolderSync (Some dir)) \<and>
      (is_async_removal e \<longrightarrow> e = RemoveFolderAsync dir)"
    proof (cases "is_sync_removal e \<or> is_async_removal e")
      case True
      with e have "e \<in> set (removals ?c)" by (simp add: removals_def)
      with inv have "e = RemoveFolderSync (Some dir) \<or> e = RemoveFolderAsync dir"
        by (auto simp: removal_invariant_def)
      then show ?thesis by auto
    next
      case False
      then show ?thesis by simp
    qed
  qed
  have each: "length (filter is_sync_removal
     (effects (fst (run win32 ?start (replicate n (CallForceKillChrome Returns remove_answer)))))) = n"
    using forced_kills_remove_each_time [of win32 ?start n remove_answer]
    by (simp add: spawned_def)
  have quiet: "(\<forall>t \<in> set ts. kill_returns t) \<longrightarrow> snd (run win32 ?start ts) = []"
    using run_kill_returns [of ts win32 ?start] by blast
  have forced: "snd (forceKillChrome win32 Returns remove_answer c) = None"
    "filter is_sync_removal (effects (fst (forceKillChrome win32 Returns remove_answer c))) =
       filter is_sync_removal (effects c) @ [RemoveFolderSync (temporaryUserDataDir c)]"
    by (simp_all add: forceKillChrome_returns forceKillChrome_sync)
  have graceful: "truthy_string (temporaryUserDataDir c) \<longrightarrow>
      snd (killChrome win32 Returns remove_answer c) = None \<and>
      filter is_sync_removal (effects (fst (killChrome win32 Returns remove_answer c))) =
        filter is_sync_removal (effects c) @ [RemoveFolderSync (temporaryUserDataDir c)]"
    by (simp add: killChrome_returns killChrome_sync)
  have mixed: "dir \<noteq> [] \<and> (\<forall>t \<in> set kills. forced_kill_call t) \<longrightarrow>
      length (filter is_sync_removal (effects (fst (run win32 ?start kills)))) = length kills"
  proof
    assume a: "dir \<noteq> [] \<and> (\<forall>t \<in> set kills. forced_kill_call t)"
    then have "truthy_string (temporaryUserDataDir ?start)"
      by (simp add: spawned_def truthy_string_def)
    with a have "length (filter is_sync_removal (effects (fst (run win32 ?start kills)))) =
        length (filter is_sync_removal (effects ?start)) + length kills"
      by (intro forced_kill_calls_remove_each_time) simp_all
    then show "length (filter is_sync_removal (effects (fst (run win32 ?start kills)))) =
        length kills"
      by (simp add: spawned_def)
  qed
  from once target each quiet forced graceful mixed show ?thesis by blast
qed

text \<open>
  The amended C2 on forced kill invoked twice with a removal that fails both times,
  on a graceful close followed by the child's close, on one graceful close whose
  removal fails, and on a graceful close followed by a forced kill.
\<close>

theorem removal_attempts_witness:
  "length (filter is_sync_removal
     (effects (fst (run False
        ((spawned options_plain (Some ''/tmp/puppeteer_dev_profile-AAAAAA'') (Some 4242))
           \<lparr>connection := True\<rparr>)
        (replicate 2 (CallForceKillChrome Returns (Throws (Error ''EBUSY'')))))))) = 2 \<and>
   kill_returns (CallKillChrome Returns Returns) \<and> kill_returns ChildClose \<and>
   snd (run False
        ((spawned options_plain (Some ''/tmp/puppeteer_dev_profile-AAAAAA'') (Some 4242))
           \<lparr>connection := True\<rparr>)
        [CallKillChrome Returns Returns, ChildClose]) = [] \<and>
   truthy_string (temporaryUserDataDir
     ((spawned options_plain (Some ''/tmp/puppeteer_dev_profile-AAAAAA'') (Some 4242))
        \<lparr>connection := True\<rparr>)) \<and>
   filter is_sync_removal (effects (fst (killChrome False Returns (Throws (Error ''EBUSY''))
     ((spawned options_plain (Some ''/tmp/puppeteer_dev_profile-AAAAAA'') (Some 4242))
        \<lparr>connection := True\<rparr>)))) =
     [RemoveFolderSync (Some ''/tmp/puppeteer_dev_profile-AAAAAA'')] \<and>
   forced_kill_call (CallKillChrome Returns (Throws (Error ''EBUSY''))) \<and>
   forced_kill_call (CallForceKillChrome Returns Returns) \<and>
   length (filter is_sync_removal
     (effects (fst (run False
        ((spawned options_plain (Some ''/tmp/puppeteer_dev_profile-AAAAAA'') (Some 4242))
           \<lparr>connection := True\<rparr>)
        [CallKillChrome Returns (Throws (Error ''EBUSY'')),
         CallForceKillChrome Returns Returns])))) = 2"
  using removal_attempts [where ?win32.0 = False and options = options_plain
      and dir = "''/tmp/puppeteer_dev_profile-AAAAAA''" and pid = "Some 4242"
      and connected = True and ts = "[CallKillChrome Returns Returns, ChildClose]"
      and n = 2 and remove_answer = "Throws (Error ''EBUSY'')"
      and c = "(spawned options_plain (Some ''/tmp/puppeteer_dev_profile-AAAAAA'') (Some 4242))
           \<lparr>connection := True\<rparr>"
      and kills = "[CallKillChrome Returns (Throws (Error ''EBUSY'')),
         CallForceKillChrome Returns Returns]"]
  by (simp add: spawned_def truthy_string_def)

subsection \<open>C3: the signals\<close>


text \<open>
  C3 as stated fails. Line 128 subscribes \<open>forceKillChrome\<close> to SIGINT only when
  \<open>options.handleSIGINT !== false\<close>: with \<open>handleSIGINT\<close> set to \<open>false\<close> the wiring has no
  entry for SIGINT and a SIGINT leaves the child alone.
\<close>

theorem sigint_not_wired_when_disabled:
  "wire_listeners (options_plain\<lparr>handleSIGINT := Some False\<rparr>) =
     [(Exit, ForceKillChrome), (SIGTERM, KillChrome), (SIGHUP, KillChrome)] \<and>
   step False (spawned (options_plain\<lparr>handleSIGINT := Some False\<rparr>) None (Some 4242))
     (Emit SIGINT Returns Returns) =
     (spawned (options_plain\<lparr>handleSIGINT := Some False\<rparr>) None (Some 4242), None)"
  by (simp add: wire_listeners_def options_plain_def step_def spawned_def)

text \<open>
  C3, amended: for every LaunchOptions, the wiring performed by \<open>launch\<close> maps SIGINT to
  the forced-kill operation exactly when \<open>handleSIGINT\<close> is not \<open>false\<close>, and SIGTERM and
  SIGHUP to the graceful-close operation exactly when \<open>handleSIGTERM\<close>, respectively
  \<open>handleSIGHUP\<close>, is not \<open>false\<close>; each signal reaches no other operation, and a signal
  whose handling is disabled reaches none.
\<close>

theorem signal_wiring:
  "((SIGINT, h) \<in> set (wire_listeners options) \<longleftrightarrow>
      h = ForceKillChrome \<and> handleSIGINT options \<noteq> Some False) \<and>
   ((SIGTERM, h) \<in> set (wire_listeners options) \<longleftrightarrow>
      h = KillChrome \<and> handleSIGTERM options \<noteq> Some False) \<and>
   ((SIGHUP, h) \<in> set (wire_listeners options) \<longleftrightarrow>
      h = KillChrome \<and> handleSIGHUP options \<noteq> Some False) \<and>
   step win32 (spawned options temporary pid) (Emit SIGINT kill_answer remove_answer) =
     (if handleSIGINT options \<noteq> Some False
      then forceKillChrome win32 kill_answer remove_answer (spawned options temporary pid)
      else (spawned options temporary pid, None)) \<and>
   step win32 (spawned options temporary pid) (Emit SIGTERM kill_answer remove_answer) =
     (if handleSIGTERM options \<noteq> Some False
      then killChrome win32 kill_answer remove_answer (spawned options temporary pid)
      else (spawned options temporary pid, None)) \<and>
   step win32 (spawned options temporary pid) (Emit SIGHUP kill_answer remove_answer) =
     (if handleSIGHUP options \<noteq> Some False
      then killChrome win32 kill_answer remove_answer (spawned options temporary pid)
      else (spawned options temporary pid, None))"
proof -
  have wiring:
    "((SIGINT, h) \<in> set (wire_listeners options) \<longleftrightarrow>
        h = ForceKillChrome \<and> handleSIGINT options \<noteq> Some False)"
    "((SIGTERM, h) \<in> set (wire_listeners options) \<longleftrightarrow>
        h = KillChrome \<and> handleSIGTERM options \<noteq> Some False)"
    "((SIGHUP, h) \<in> set (wire_listeners options) \<longleftrightarrow>
        h = KillChrome \<and> handleSIGHUP options \<noteq> Some False)"
    by (auto simp: wire_listeners_def)
  have handlers:
    "map snd (filter (\<lambda>l. fst l = SIGINT) (wire_listeners options)) =
       (if handleSIGINT options \<noteq> Some False then [ForceKillChrome] else [])"
    "map snd (filter (\<lambda>l. fst l = SIGTERM) (wire_listeners options)) =
       (if handleSIGTERM options \<noteq> Some False then [KillChrome] else [])"
    "map snd (filter (\<lambda>l. fst l = SIGHUP) (wire_listeners options)) =
       (if handleSIGHUP options \<noteq> Some False then [KillChrome] else [])"
    by (simp_all add: wire_listeners_def)
  have emit1: "emit win32 kill_answer remove_answer [x] c =
      run_handler win32 kill_answer remove_answer x c" for x c
    by (cases "run_handler win32 kill_answer remove_answer x c")
       (auto split: option.splits)
  have listeners: "listeners (spawned options temporary pid) = wire_listeners options"
    by (simp add: spawned_def)
  show ?thesis
    using wiring
    by (simp add: step_def listeners handlers emit1 run_handler_def del: emit.simps) simp
qed

text \<open>
  The amended C3 at options that set nothing (SIGINT runs the forced kill) and at
  options that disable SIGTERM.
\<close>

theorem signal_wiring_witness:
  "(SIGINT, ForceKillChrome) \<in> set (wire_listeners options_plain) \<and>
   (SIGTERM, KillChrome) \<notin> set (wire_listeners (options_plain\<lparr>handleSIGTERM := Some False\<rparr>)) \<and>
   step False (spawned options_plain None (Some 4242)) (Emit SIGINT Returns Returns) =
     forceKillChrome False Returns Returns (spawned options_plain None (Some 4242))"
  using signal_wiring [of ForceKillChrome options_plain False None "Some 4242" Returns Returns]
    signal_wiring [of KillChrome "options_plain\<lparr>handleSIGTERM := Some False\<rparr>"
      False None "Some 4242" Returns Returns]
  by (simp add: options_plain_def)

subsection \<open>C6: a launch that fails\<close>


text \<open>
  When the handshake or the connection fails and the kill, if reached, returns,
  \<open>launch\<close> rejects with that failure after the forced kill has run in full: listeners
  deregistered, the child killed if it was taken for live, the removal tried.
\<close>

lemma launch_failure_forced_kill:
  assumes "browserWSEndpoint = Reject e \<or>
           (\<exists>endpoint. browserWSEndpoint = Resolve endpoint \<and> Connection_create endpoint = Inl e)"
    and "kill_answer = Returns \<or> chromeProcess_pid c = None \<or> chromeProcess_pid c = Some 0
         \<or> chromeProcess_killed c \<or> chromeClosed c"
  shows "snd (launch_try win32 kill_answer remove_answer browserWSEndpoint Connection_create
           Browser_create c) = Rejected e \<and>
         listeners (fst (launch_try win32 kill_answer remove_answer browserWSEndpoint
           Connection_create Browser_create c)) = [] \<and>
         (\<exists>kill. effects (fst (launch_try win32 kill_answer remove_answer browserWSEndpoint
           Connection_create Browser_create c)) =
            effects c @ [RemoveEventListeners] @ kill @
              [RemoveFolderSync (temporaryUserDataDir c)] \<and>
            kill = (case chromeProcess_pid c of
                      None \<Rightarrow> []
                    | Some pid \<Rightarrow>
                        if pid \<noteq> 0 \<and> \<not> chromeProcess_killed c \<and> \<not> chromeClosed c
                        then [if win32 then ExecSyncTaskkill pid else ProcessKill pid]
                        else []))"
  using assms
  by (auto simp: launch_try_def launch_catch_def forceKillChrome_def removeEventListeners_def
        removeFolder_sync_eq Let_def split: option.splits answer.splits)

text \<open>
  C6 on the input where the code departs from it. The child exits while starting, so
  the handshake rejects with the launch failure; in the \<open>catch\<close> of line 141
  \<open>forceKillChrome\<close> finds the child neither killed nor closed and calls
  \<open>process.kill\<close>, which throws because the process group is gone. The throw leaves
  \<open>forceKillChrome\<close> before line 171: the listeners are deregistered and the kill was
  tried, but no removal of the temporary directory has run, and \<open>launch\<close> rejects with
  the error of the kill instead of the launch failure.
\<close>

theorem launch_failure_kill_throws:
  "promise (handshake 30000 ''499413'' [ChildExit]) =
     Some (Reject (Error (launch_failure_message None []))) \<and>
   launch_try False (Throws (Error ''kill ESRCH'')) Returns
     (Reject (Error (launch_failure_message None [])))
     (\<lambda>endpoint. Inr ()) (Inr ())
     (spawned options_plain (Some ''/tmp/puppeteer_dev_profile-AAAAAA'') (Some 4242)) =
   ((spawned options_plain (Some ''/tmp/puppeteer_dev_profile-AAAAAA'') (Some 4242))
      \<lparr>listeners := [], effects := [RemoveEventListeners, ProcessKill 4242]\<rparr>,
    Rejected (Error ''kill ESRCH''))"
  by (simp add: launch_try_def launch_catch_def forceKillChrome_def removeEventListeners_def
        spawned_def Let_def handshake_def waitForWSEndpoint_def onClose_def cleanup_def
        race_removeEventListeners_def promise_def truthy_number_def)

subsection \<open>C10: a removal that fails after the close\<close>


lemma on_close_ignored: "\<not> close_listener c \<Longrightarrow> on_close c = c"
  by (simp add: on_close_def)

lemma on_removal_settled_ignored: "\<not> removal_running c \<Longrightarrow> on_removal_settled a c = c"
  by (simp add: on_removal_settled_def)

lemma step_control_guarded:
  assumes "close_listener c \<longrightarrow> t \<noteq> ChildClose"
    and "removal_running c \<longrightarrow> (\<forall>a. t \<noteq> RemovalSettled a)"
  shows "control (fst (step w c t)) = control c"
proof (cases "t = ChildClose \<or> (\<exists>a. t = RemovalSettled a)")
  case True
  with assms show ?thesis
    by (auto simp: step_def on_close_ignored on_removal_settled_ignored)
next
  case False
  then show ?thesis by (simp add: step_control)
qed

lemma run_control_guarded:
  assumes "close_listener c \<longrightarrow> ChildClose \<notin> set ts"
    and "removal_running c \<longrightarrow> (\<forall>a. RemovalSettled a \<notin> set ts)"
  shows "control (fst (run w c ts)) = control c"
  using assms
proof (induction ts arbitrary: c)
  case Nil
  then show ?case by simp
next
  case (Cons t ts)
  have s: "control (fst (step w c t)) = control c"
    using Cons.prems by (intro step_control_guarded) auto
  then have "close_listener (fst (step w c t)) = close_listener c"
    and "removal_running (fst (step w c t)) = removal_running c"
    by (simp_all add: control_def)
  with Cons.prems have "control (fst (run w (fst (step w c t)) ts)) = control (fst (step w c t))"
    by (intro Cons.IH) auto
  with s show ?case by (simp only: fst_run_Cons)
qed

lemma forceKillChrome_effects: "set (effects c) \<subseteq> set (effects (fst (forceKillChrome w k r c)))"
  by (auto simp: forceKillChrome_def removeEventListeners_def removeFolder_sync_eq Let_def
        split: option.splits answer.splits)

lemma killChrome_effects: "set (effects c) \<subseteq> set (effects (fst (killChrome w k r c)))"
  using forceKillChrome_effects [of "removeEventListeners c" w k r]
  by (auto simp: killChrome_def Let_def removeEventListeners_def)

lemma emit_effects: "set (effects c) \<subseteq> set (effects (fst (emit w k r hs c)))"
proof (induction hs arbitrary: c)
  case Nil
  then show ?case by simp
next
  case (Cons h hs)
  obtain c' x where hc: "run_handler w k r h c = (c', x)" by (cases "run_handler w k r h c")
  have "set (effects c) \<subseteq> set (effects (fst (run_handler w k r h c)))"
    by (cases h) (simp_all add: run_handler_def forceKillChrome_effects killChrome_effects)
  with hc have "set (effects c) \<subseteq> set (effects c')" by simp
  with Cons [of c'] hc show ?case by (cases x) auto
qed

lemma step_effects: "set (effects c) \<subseteq> set (effects (fst (step w c t)))"
proof (cases t)
  case ChildClose
  then show ?thesis by (auto simp: step_def on_close_def Let_def split: option.splits)
next
  case (RemovalSettled a)
  then show ?thesis
    by (auto simp: step_def on_removal_settled_def Let_def split: answer.splits)
qed (simp_all add: step_def forceKillChrome_effects killChrome_effects emit_effects)

lemma run_effects: "set (effects c) \<subseteq> set (effects (fst (run w c ts)))"
proof (induction ts arbitrary: c)
  case Nil
  then show ?case by simp
next
  case (Cons t ts)
  have "set (effects c) \<subseteq> set (effects (fst (step w c t)))"
    by (rule step_effects)
  also have "\<dots> \<subseteq> set (effects (fst (run w (fst (step w c t)) ts)))"
    by (rule Cons)
  finally show ?case by (simp only: fst_run_Cons)
qed

text \<open>
  C10: if the child's close event fires for a SupervisedProcess that owns a temporary
  profile directory and the asynchronous removal of that directory fails, the failure
  is logged and the promise \<open>waitForChromeToClose\<close> is never settled: it is pending
  after the failure and stays pending whatever happens before, between and afterwards
  (kills, signals, further close events), so a graceful close that returned it never
  returns to its caller.
\<close>

theorem failed_async_removal_never_settles:
  assumes "dir \<noteq> []"
    and "ChildClose \<notin> set before"
    and "\<forall>a. RemovalSettled a \<notin> set between"
  shows "waitForChromeToClose (fst (run win32 ((spawned options (Some dir) pid)\<lparr>connection := connected\<rparr>)
           (before @ ChildClose # between @ RemovalSettled (Throws err) # after))) = Pending \<and>
         ConsoleError err \<in> set (effects (fst (run win32 ((spawned options (Some dir) pid)\<lparr>connection := connected\<rparr>)
           (before @ ChildClose # between @ RemovalSettled (Throws err) # after))))"
proof -
  define c1 where "c1 = fst (run win32 ((spawned options (Some dir) pid)\<lparr>connection := connected\<rparr>) before)"
  define c2 where "c2 = on_close c1"
  define c3 where "c3 = fst (run win32 c2 between)"
  define c4 where "c4 = on_removal_settled (Throws err) c3"
  define c5 where "c5 = fst (run win32 c4 after)"
  have final: "fst (run win32 ((spawned options (Some dir) pid)\<lparr>connection := connected\<rparr>)
           (before @ ChildClose # between @ RemovalSettled (Throws err) # after)) = c5"
    by (simp only: fst_run_append fst_run_Cons c1_def c2_def c3_def c4_def c5_def)
       (simp add: step_def)
  have "control ((spawned options (Some dir) pid)\<lparr>connection := connected\<rparr>) = (Pending, True, False, Some dir)"
    by (simp add: control_def spawned_def)
  moreover have "control c1 = control ((spawned options (Some dir) pid)\<lparr>connection := connected\<rparr>)"
    unfolding c1_def using assms(2) by (intro run_control_guarded) (simp_all add: spawned_def)
  ultimately have k1: "control c1 = (Pending, True, False, Some dir)" by simp
  then have k2: "control c2 = (Pending, False, True, Some dir)"
    using assms(1) by (simp add: c2_def control_def on_close_def Let_def)
  have "control c3 = control c2"
    unfolding c3_def using assms(3) k2 by (intro run_control_guarded) (simp_all add: control_def)
  with k2 have k3: "control c3 = (Pending, False, True, Some dir)" by simp
  then have k4: "control c4 = (Pending, False, False, Some dir)"
    and logged: "ConsoleError err \<in> set (effects c4)"
    by (simp_all add: c4_def control_def on_removal_settled_def Let_def)
  have "control c5 = control c4"
    unfolding c5_def using k4 by (intro run_control_guarded) (simp_all add: control_def)
  with k4 have "waitForChromeToClose c5 = Pending" by (simp add: control_def)
  moreover have "ConsoleError err \<in> set (effects c5)"
    using logged run_effects [of c4 win32 after] by (auto simp: c5_def)
  ultimately show ?thesis by (simp only: final)
qed

text \<open>
  C10 on a graceful close, the close of the child, a removal that fails on a busy
  directory, and a second graceful close afterwards.
\<close>

theorem failed_async_removal_never_settles_witness:
  "waitForChromeToClose (fst (run False
      ((spawned options_plain (Some ''/tmp/puppeteer_dev_profile-AAAAAA'') (Some 4242))
         \<lparr>connection := True\<rparr>)
      ([CallKillChrome Returns Returns] @ ChildClose # [] @
       RemovalSettled (Throws (Error ''EBUSY'')) #
       [CallKillChrome Returns Returns, ChildClose, RemovalSettled Returns]))) = Pending"
  using failed_async_removal_never_settles
    [where dir = "''/tmp/puppeteer_dev_profile-AAAAAA''"
      and before = "[CallKillChrome Returns Returns]" and between = "[]"
      and ?win32.0 = False and options = options_plain and pid = "Some 4242"
      and connected = True and err = "Error ''EBUSY''"
      and after = "[CallKillChrome Returns Returns, ChildClose, RemovalSettled Returns]"]
  by simp


end
